theory Spec2Isabelle
  imports Main "HOL-Library.Word" "HOL-Library.AList" "HOL-Library.Sublist"
begin

unbundle bit_operations_syntax

section \<open>Python values, errors and the collaborators of the codec\<close>

text \<open>
  The development embeds \<^verbatim>\<open>trimesh/exchange/gltf.py\<close>: the GLTF 2.0 exporter
  (\<^verbatim>\<open>export_gltf\<close>, \<^verbatim>\<open>export_glb\<close>) and the GLB importer (\<^verbatim>\<open>load_glb\<close>,
  \<^verbatim>\<open>_read_buffers\<close>). A leading underscore of a Python name is dropped, since an
  Isabelle name cannot start with one.

  Bytes are 8-bit words. A float is carried as its bit pattern: a Python float (float64)
  as a 64-bit word, a numpy float32 as a 32-bit word. Floating-point arithmetic itself is
  not modelled; the few operations the code performs on floats are fields of \<open>env\<close>.
\<close>

type_synonym byte = "8 word"
type_synonym bytes = "byte list"
type_synonym f64 = "64 word"
type_synonym f32 = "32 word"

datatype error =
    ValueError | AssertionError | IndexError | KeyError | TypeError
  | AttributeError | ZeroDivisionError

definition ebind :: "error + 'a \<Rightarrow> ('a \<Rightarrow> error + 'b) \<Rightarrow> error + 'b" where
  "ebind m f = (case m of Inl e \<Rightarrow> Inl e | Inr v \<Rightarrow> f v)"

text \<open>A parsed JSON document; a Python dict keeps insertion order, hence the
  association list.\<close>

datatype json =
    JNull
  | JBool bool
  | JInt int
  | JFloat f64
  | JStr string
  | JArr "json list"
  | JObj "(string \<times> json) list"

text \<open>
  What the module takes from outside itself: the standard \<^verbatim>\<open>json\<close> module, numpy's
  float conversions and reductions, and helpers of other trimesh modules.
  \<^item> \<open>dumps\<close> is \<^verbatim>\<open>json.dumps\<close>, \<open>loads\<close> is \<^verbatim>\<open>bytes.decode('utf-8')\<close> followed by
    \<^verbatim>\<open>json.loads\<close> (\<open>None\<close> when either raises; both raise subclasses of ValueError);
  \<^item> \<open>astype_float32\<close> is \<^verbatim>\<open>astype(float32)\<close> on one float64, \<open>amax\<close> and \<open>amin\<close> are
    numpy's \<^verbatim>\<open>max\<close> and \<^verbatim>\<open>min\<close> over a non-empty column of floats;
  \<^item> \<open>unit_color\<close> is \<^verbatim>\<open>c.astype(float32) / (2 ** 8 - 1)\<close> read back as a Python float;
  \<^item> \<open>float_as_int\<close> gives the int a float is equal to, if any (Python's dict lookup
    identifies \<^verbatim>\<open>1.0\<close> and \<^verbatim>\<open>1\<close>);
  \<^item> \<open>py_str\<close> is Python's \<^verbatim>\<open>str\<close> on a parsed JSON value that is not a string;
  \<^item> \<open>unique_id length increment\<close> is \<^verbatim>\<open>util.unique_id\<close>, \<open>upper\<close> is \<^verbatim>\<open>str.upper\<close>;
  \<^item> \<open>random_frame\<close> is the string \<^verbatim>\<open>str(int(np.random.random() * 1e10))\<close> drawn by the call;
  \<^item> \<open>pil_open\<close> is \<open>None\<close> when pillow cannot be imported, and otherwise decodes an
    image, giving \<open>None\<close> for an image that fails to load;
  \<^item> \<open>flip_v\<close> is \<^verbatim>\<open>1.0 - v\<close> stored back into an array element of the given type;
  \<^item> \<open>np_array_f64\<close> is \<^verbatim>\<open>np.array(v, dtype=np.float64)\<close> on a parsed JSON value: the
    elements in row-major order, or the exception numpy raises.
  The element types of \<^verbatim>\<open>_types\<close> come first, since \<open>flip_v\<close> mentions them.
\<close>

datatype dtype = I1 | U1 | I2 | U2 | U4 | F4

record env =
  dumps :: "json \<Rightarrow> string"
  loads :: "bytes \<Rightarrow> json option"
  astype_float32 :: "f64 \<Rightarrow> f32"
  amax :: "f64 list \<Rightarrow> f64"
  amin :: "f64 list \<Rightarrow> f64"
  unit_color :: "byte \<Rightarrow> f64"
  float_as_int :: "f64 \<Rightarrow> int option"
  py_str :: "json \<Rightarrow> string"
  unique_id :: "nat \<Rightarrow> nat \<Rightarrow> string"
  upper :: "string \<Rightarrow> string"
  random_frame :: string
  pil_open :: "(bytes \<Rightarrow> bytes option) option"
  flip_v :: "dtype \<Rightarrow> nat \<Rightarrow> nat"
  np_array_f64 :: "json \<Rightarrow> error + f64 list"

section \<open>Decimal numerals\<close>

text \<open>\<^verbatim>\<open>str(i)\<close> and \<^verbatim>\<open>'{}'.format(i)\<close> for a Python int.\<close>

definition digit :: "nat \<Rightarrow> char" where
  "digit d = ''0123456789'' ! d"

function decimal :: "nat \<Rightarrow> string" where
  "decimal n = (if n < 10 then [digit n] else decimal (n div 10) @ [digit (n mod 10)])"
  by pat_completeness auto
termination
  by (relation "measure id") auto

declare decimal.simps [simp del]

definition str_int :: "int \<Rightarrow> string" where
  "str_int i = (if i < 0 then CHR ''-'' # decimal (nat (- i)) else decimal (nat i))"

section \<open>Little-endian arrays\<close>

text \<open>\<^verbatim>\<open>tobytes()\<close> of a \<^verbatim>\<open><u4\<close> or \<^verbatim>\<open><f4\<close> element: four bytes, least significant
  first.\<close>

definition u32_bytes :: "32 word \<Rightarrow> bytes" where
  "u32_bytes w =
     (let n = unat w in
      [of_nat (n mod 256), of_nat (n div 256 mod 256),
       of_nat (n div 65536 mod 256), of_nat (n div 16777216 mod 256)])"

definition tobytes :: "32 word list \<Rightarrow> bytes" where
  "tobytes ws = concat (map u32_bytes ws)"

text \<open>\<^verbatim>\<open>np.array(xs, dtype='<u4')\<close> and \<^verbatim>\<open>astype(uint32)\<close>: a value outside the range of
  32 bits is reduced modulo \<open>2 ^ 32\<close>.\<close>

definition astype_uint32 :: "int list \<Rightarrow> 32 word list" where
  "astype_uint32 xs = map word_of_int xs"

text \<open>The unsigned value of the bytes of one array element.\<close>

fun le_decode :: "bytes \<Rightarrow> nat" where
  "le_decode [] = 0"
| "le_decode (b # bs) = unat b + 256 * le_decode bs"

text \<open>\<^verbatim>\<open>str.encode('utf-8')\<close> on the 8-bit characters of a \<open>string\<close>: one byte below
  128, two bytes from 128 on.\<close>

definition utf8_char :: "char \<Rightarrow> bytes" where
  "utf8_char c =
     (let n = (of_char c :: nat) in
      if n < 128 then [of_nat n] else [of_nat (192 + n div 64), of_nat (128 + n mod 64)])"

definition encode_utf8 :: "string \<Rightarrow> bytes" where
  "encode_utf8 s = concat (map utf8_char s)"

section \<open>Constants of the module\<close>

text \<open>\<^verbatim>\<open>_magic\<close>\<close>

definition magic_gltf :: int where "magic_gltf = 1179937895"
definition magic_json :: int where "magic_json = 1313821514"
definition magic_bin :: int where "magic_bin = 5130562"

text \<open>\<^verbatim>\<open>_default_material\<close>\<close>

definition default_material :: json where
  "default_material =
     JObj [(''pbrMetallicRoughness'',
            JObj [(''baseColorFactor'', JArr [JInt 0, JInt 0, JInt 0, JInt 0]),
                  (''metallicFactor'', JInt 0),
                  (''roughnessFactor'', JInt 0)])]"

section \<open>The scene being exported\<close>

text \<open>
  The mesh, path and scene classes live in other modules; the records hold what the
  exporter reads from them. \<open>faces\<close> is the \<open>(n, 3)\<close> integer array, \<open>vertices\<close> the
  \<open>(n, 3)\<close> float array, \<open>vertex_colors\<close> the \<open>(n, 4)\<close> uint8 array of a color visual,
  \<open>kind\<close> its \<^verbatim>\<open>kind\<close> property (\<open>None\<close> when no color is defined) and \<open>main_color\<close> the
  uint8 array of \<^verbatim>\<open>mesh.visual.main_color\<close>. A visual with a \<^verbatim>\<open>uv\<close> attribute is a
  texture visual; it carries the color visual its \<^verbatim>\<open>to_color()\<close> returns.
\<close>

record color_visuals =
  kind :: "string option"
  vertex_colors :: "(byte \<times> byte \<times> byte \<times> byte) list"

datatype visuals = ColorVisuals color_visuals | TextureVisuals color_visuals

record trimesh =
  vertices :: "(f64 \<times> f64 \<times> f64) list"
  faces :: "(int \<times> int \<times> int) list"
  units :: "string option"
  visual :: visuals
  main_color :: "byte list"
  vertex_normals :: "(f64 \<times> f64 \<times> f64) list"

text \<open>For a path, \<open>vxlist_count\<close> and \<open>vxlist_data\<close> are the fields \<^verbatim>\<open>vxlist[0]\<close> and
  \<^verbatim>\<open>vxlist[4][1]\<close> of \<^verbatim>\<open>rendering.path_to_vertexlist(path)\<close>; \<open>path_vertices\<close> holds the
  rows of \<^verbatim>\<open>path.vertices\<close>.\<close>

record path =
  path_vertices :: "f64 list list"
  path_units :: "string option"
  vxlist_count :: int
  vxlist_data :: "f64 list"

datatype geometry = Trimesh trimesh | Path path | OtherGeometry

text \<open>
  \<open>geometry\<close> is the ordered dict \<^verbatim>\<open>scene.geometry\<close>.
  Modelled from the spec: \<open>graph_to_gltf\<close> stands for \<^verbatim>\<open>scene.graph.to_gltf\<close>, which is
  not part of this module; given the mesh index it yields the flattened node list that
  is merged into the tree under the key \<^verbatim>\<open>nodes\<close>.
\<close>

record scene =
  geometry :: "(string \<times> geometry) list"
  graph_to_gltf :: "(string \<times> nat) list \<Rightarrow> json list"

section \<open>Export: the structure builder\<close>

text \<open>\<^verbatim>\<open>_byte_pad(data, bound=4)\<close>. Python's \<^verbatim>\<open>%\<close> rounds as \<open>mod\<close> on \<open>int\<close> does;
  \<^verbatim>\<open>bytes(n)\<close> raises ValueError for a negative \<open>n\<close>.\<close>

definition byte_pad :: "bytes \<Rightarrow> int \<Rightarrow> error + bytes" where
  "byte_pad data bound =
     (if bound = 0 then Inl ZeroDivisionError
      else if int (length data) mod bound \<noteq> 0 then
        (let n = bound - int (length data) mod bound in
         if n < 0 then Inl ValueError
         else
           (let result = data @ replicate (nat n) 0 in
            if int (length result) mod bound \<noteq> 0 then Inl AssertionError
            else Inr result))
      else Inr data)"

text \<open>The three arrays of the tree that the builder appends to.\<close>

record tree =
  tree_accessors :: "json list"
  tree_meshes :: "json list"
  tree_materials :: "json list"

definition flat3 :: "('a \<times> 'a \<times> 'a) list \<Rightarrow> 'a list" where
  "flat3 xs = concat (map (\<lambda>(a, b, c). [a, b, c]) xs)"

definition flat4 :: "('a \<times> 'a \<times> 'a \<times> 'a) list \<Rightarrow> 'a list" where
  "flat4 xs = concat (map (\<lambda>(a, b, c, d). [a, b, c, d]) xs)"

text \<open>\<^verbatim>\<open>a.max(axis=0).tolist()\<close> of an \<open>(n, 3)\<close> float array; numpy raises ValueError on
  an empty array.\<close>

definition column_bounds ::
  "(f64 list \<Rightarrow> f64) \<Rightarrow> (f64 \<times> f64 \<times> f64) list \<Rightarrow> error + json" where
  "column_bounds red vs =
     (if vs = [] then Inl ValueError
      else Inr (JArr [JFloat (red (map fst vs)),
                      JFloat (red (map (fst \<circ> snd) vs)),
                      JFloat (red (map (snd \<circ> snd) vs))]))"

text \<open>The same for the rows of a path, of any common width.\<close>

definition row_bounds :: "(f64 list \<Rightarrow> f64) \<Rightarrow> f64 list list \<Rightarrow> error + json" where
  "row_bounds red rows =
     (if rows = [] then Inl ValueError
      else Inr (JArr (map (\<lambda>col. JFloat (red col)) (transpose rows))))"

text \<open>\<^verbatim>\<open>_mesh_to_material(mesh)\<close> with its defaults \<^verbatim>\<open>metallic=0.0, rough=0.0\<close>; the bit
  pattern of \<^verbatim>\<open>0.0\<close> is zero.\<close>

definition mesh_to_material :: "env \<Rightarrow> trimesh \<Rightarrow> json" where
  "mesh_to_material E mesh =
     JObj [(''pbrMetallicRoughness'',
            JObj [(''baseColorFactor'', JArr (map (\<lambda>c. JFloat (unit_color E c)) (main_color mesh))),
                  (''metallicFactor'', JFloat 0),
                  (''roughnessFactor'', JFloat 0)])]"

text \<open>\<^verbatim>\<open>extras\<close> of a mesh record: present when units are defined.\<close>

definition units_extras :: "string option \<Rightarrow> (string \<times> json) list" where
  "units_extras u =
     (case u of None \<Rightarrow> []
      | Some s \<Rightarrow> [(''extras'', JObj [(''units'', JStr s)])])"

text \<open>\<^verbatim>\<open>visual = mesh.visual.to_color() if hasattr(mesh.visual, 'uv') else mesh.visual\<close>\<close>

definition mesh_visual :: "trimesh \<Rightarrow> color_visuals" where
  "mesh_visual mesh = (case visual mesh of TextureVisuals c \<Rightarrow> c | ColorVisuals c \<Rightarrow> c)"

text \<open>
  \<^verbatim>\<open>_append_mesh\<close>. The source appends the mesh record first and then writes
  \<^verbatim>\<open>COLOR_0\<close>, \<^verbatim>\<open>material\<close>, \<^verbatim>\<open>NORMAL\<close> and \<^verbatim>\<open>extras\<close> into it in place; here the record
  is assembled from the same parts, in the same key order, and appended at the end.
  An exception leaves the function at once, as in the source.
\<close>

definition append_mesh ::
  "env \<Rightarrow> trimesh \<Rightarrow> string \<Rightarrow> tree \<Rightarrow> bytes list \<Rightarrow> bool \<Rightarrow> error + (tree \<times> bytes list)" where
  "append_mesh E mesh name tr buffer_items include_normals =
     (let n0 = length (tree_accessors tr) in
      if faces mesh = [] then Inl ValueError
      else
      (let index_accessor = JObj
             [(''bufferView'', JInt (int (length buffer_items))),
              (''componentType'', JInt 5125),
              (''count'', JInt (int (length (faces mesh)) * 3)),
              (''max'', JArr [JInt (Max (set (flat3 (faces mesh))))]),
              (''min'', JArr [JInt 0]),
              (''type'', JStr ''SCALAR'')] in
       ebind (byte_pad (tobytes (astype_uint32 (flat3 (faces mesh)))) 4) (\<lambda>face_data.
       let items1 = buffer_items @ [face_data] in
       ebind (column_bounds (amax E) (vertices mesh)) (\<lambda>vmax.
       ebind (column_bounds (amin E) (vertices mesh)) (\<lambda>vmin.
       let vertex_accessor = JObj
             [(''bufferView'', JInt (int (length items1))),
              (''componentType'', JInt 5126),
              (''count'', JInt (int (length (vertices mesh)))),
              (''type'', JStr ''VEC3''),
              (''byteOffset'', JInt 0),
              (''max'', vmax),
              (''min'', vmin)] in
       ebind (byte_pad (tobytes (map (astype_float32 E) (flat3 (vertices mesh)))) 4) (\<lambda>vertex_data.
       let items2 = items1 @ [vertex_data];
           accs2 = tree_accessors tr @ [index_accessor, vertex_accessor];
           vis = mesh_visual mesh in
       ebind
         (if kind vis \<noteq> None then
            (if length (vertex_colors vis) \<noteq> length (vertices mesh) then Inl AssertionError
             else
               ebind (byte_pad (flat4 (vertex_colors vis)) 4) (\<lambda>color_data.
               Inr ([(''COLOR_0'', JInt (int (length accs2)))],
                    [],
                    accs2 @ [JObj
                      [(''bufferView'', JInt (int (length items2))),
                       (''componentType'', JInt 5121),
                       (''normalized'', JBool True),
                       (''count'', JInt (int (length (vertices mesh)))),
                       (''type'', JStr ''VEC4''),
                       (''byteOffset'', JInt 0)]],
                    items2 @ [color_data],
                    tree_materials tr)))
          else
            Inr ([],
                 [(''material'', JInt (int (length (tree_materials tr))))],
                 accs2,
                 items2,
                 tree_materials tr @ [mesh_to_material E mesh]))
         (\<lambda>(color_attr, material_ref, accs3, items3, mats3).
       ebind
         (if include_normals then
            ebind (byte_pad (tobytes (map (astype_float32 E) (flat3 (vertex_normals mesh)))) 4)
              (\<lambda>normal_data.
               Inr ([(''NORMAL'', JInt (int (length accs3)))],
                    accs3 @ [JObj
                      [(''bufferView'', JInt (int (length items3))),
                       (''componentType'', JInt 5126),
                       (''count'', JInt (int (length (vertices mesh)))),
                       (''type'', JStr ''VEC3''),
                       (''byteOffset'', JInt 0)]],
                    items3 @ [normal_data]))
          else Inr ([], accs3, items3))
         (\<lambda>(normal_attr, accs4, items4).
       let primitive = JObj
             ([(''attributes'',
                JObj ([(''POSITION'', JInt (int n0 + 1))] @ color_attr @ normal_attr)),
               (''indices'', JInt (int n0)),
               (''mode'', JInt 4)] @ material_ref);
           mesh_record = JObj
             ([(''name'', JStr name), (''primitives'', JArr [primitive])]
              @ units_extras (units mesh)) in
       Inr (\<lparr>tree_accessors = accs4, tree_meshes = tree_meshes tr @ [mesh_record],
              tree_materials = mats3\<rparr>,
            items4)))))))))"

text \<open>\<^verbatim>\<open>_append_path\<close>\<close>

definition append_path ::
  "env \<Rightarrow> path \<Rightarrow> string \<Rightarrow> tree \<Rightarrow> bytes list \<Rightarrow> error + (tree \<times> bytes list)" where
  "append_path E p name tr buffer_items =
     (let primitive = JObj
            [(''attributes'', JObj [(''POSITION'', JInt (int (length (tree_accessors tr))))]),
             (''mode'', JInt 1),
             (''material'', JInt (int (length (tree_materials tr))))];
          mesh_record = JObj
            ([(''name'', JStr name), (''primitives'', JArr [primitive])]
             @ units_extras (path_units p)) in
      ebind (row_bounds (amax E) (path_vertices p)) (\<lambda>vmax.
      ebind (row_bounds (amin E) (path_vertices p)) (\<lambda>vmin.
      let accessor = JObj
            [(''bufferView'', JInt (int (length buffer_items))),
             (''componentType'', JInt 5126),
             (''count'', JInt (vxlist_count p)),
             (''type'', JStr ''VEC3''),
             (''byteOffset'', JInt 0),
             (''max'', vmax),
             (''min'', vmin)] in
      ebind (byte_pad (tobytes (map (astype_float32 E) (vxlist_data p))) 4) (\<lambda>data.
      Inr (\<lparr>tree_accessors = tree_accessors tr @ [accessor],
             tree_meshes = tree_meshes tr @ [mesh_record],
             tree_materials = tree_materials tr @ [default_material]\<rparr>,
           buffer_items @ [data])))))"

text \<open>The loop of \<^verbatim>\<open>_create_gltf_structure\<close> over \<^verbatim>\<open>scene.geometry.items()\<close>.\<close>

fun append_geometries ::
  "env \<Rightarrow> bool \<Rightarrow> (string \<times> geometry) list \<Rightarrow> tree \<Rightarrow> bytes list
   \<Rightarrow> error + (tree \<times> bytes list)" where
  "append_geometries E include_normals [] tr buffer_items = Inr (tr, buffer_items)"
| "append_geometries E include_normals ((name, g) # rest) tr buffer_items =
     (case g of
        Trimesh mesh \<Rightarrow>
          ebind (append_mesh E mesh name tr buffer_items include_normals)
            (\<lambda>(tr', items'). append_geometries E include_normals rest tr' items')
      | Path p \<Rightarrow>
          ebind (append_path E p name tr buffer_items)
            (\<lambda>(tr', items'). append_geometries E include_normals rest tr' items')
      | OtherGeometry \<Rightarrow> append_geometries E include_normals rest tr buffer_items)"

text \<open>
  \<^verbatim>\<open>_create_gltf_structure\<close>: the returned tree is the dict of the source, written with
  its keys in insertion order; the key \<^verbatim>\<open>materials\<close> is popped when its array is empty.
\<close>

definition create_gltf_structure ::
  "env \<Rightarrow> scene \<Rightarrow> bool \<Rightarrow> error + ((string \<times> json) list \<times> bytes list)" where
  "create_gltf_structure E sc include_normals =
     (let names = map fst (geometry sc);
          mesh_index = zip names [0 ..< length names];
          nodes = graph_to_gltf sc mesh_index in
      ebind (append_geometries E include_normals (geometry sc)
               \<lparr>tree_accessors = [], tree_meshes = [], tree_materials = []\<rparr> [])
        (\<lambda>(tr, buffer_items).
           Inr ([(''scene'', JInt 0),
                 (''scenes'', JArr [JObj [(''nodes'', JArr [JInt 0])]]),
                 (''asset'', JObj [(''version'', JStr ''2.0''),
                                  (''generator'', JStr ''github.com/mikedh/trimesh'')]),
                 (''accessors'', JArr (tree_accessors tr)),
                 (''meshes'', JArr (tree_meshes tr))]
                @ (if length (tree_materials tr) = 0 then []
                   else [(''materials'', JArr (tree_materials tr))])
                @ [(''nodes'', JArr nodes)],
                buffer_items)))"

section \<open>Export: GLB container and GLTF directory\<close>

text \<open>The loop of \<^verbatim>\<open>export_glb\<close> that creates one buffer view per buffer item.\<close>

fun buffer_views :: "nat \<Rightarrow> bytes list \<Rightarrow> json list" where
  "buffer_views current_pos [] = []"
| "buffer_views current_pos (current_item # rest) =
     JObj [(''buffer'', JInt 0),
           (''byteOffset'', JInt (int current_pos)),
           (''byteLength'', JInt (int (length current_item)))]
     # buffer_views (current_pos + length current_item) rest"

text \<open>\<^verbatim>\<open>content += (4 - ((len(content) + 20) % 4)) * ' '\<close>\<close>

definition pad_content :: "string \<Rightarrow> string" where
  "pad_content content =
     content @ replicate (4 - ((length content + 20) mod 4)) (CHR '' '')"

text \<open>The tree of \<^verbatim>\<open>export_glb\<close> once \<^verbatim>\<open>buffers\<close> and \<^verbatim>\<open>bufferViews\<close> are set.\<close>

definition glb_tree :: "(string \<times> json) list \<Rightarrow> bytes list \<Rightarrow> (string \<times> json) list" where
  "glb_tree tr buffer_items =
     AList.update ''bufferViews'' (JArr (buffer_views 0 buffer_items))
       (AList.update ''buffers''
          (JArr [JObj [(''byteLength'', JInt (int (length (concat buffer_items))))]]) tr)"

text \<open>
  \<^verbatim>\<open>export_glb\<close>, up to the final join: the four parts \<^verbatim>\<open>header\<close>, \<^verbatim>\<open>content\<close>,
  \<^verbatim>\<open>bin_header\<close> and \<^verbatim>\<open>buffer_data\<close>. The header words are stored with \<^verbatim>\<open>dtype='<u4'\<close>.
\<close>

definition glb_parts ::
  "env \<Rightarrow> scene \<Rightarrow> bool \<Rightarrow> error + (bytes \<times> bytes \<times> bytes \<times> bytes)" where
  "glb_parts E sc include_normals =
     ebind (create_gltf_structure E sc include_normals) (\<lambda>(tr, buffer_items).
     let buffer_data = concat buffer_items;
         content = encode_utf8 (pad_content (dumps E (JObj (glb_tree tr buffer_items)))) in
     if length content mod 4 \<noteq> 0 then Inl AssertionError
     else
       ebind (byte_pad (tobytes (astype_uint32
                [magic_gltf, 2,
                 int (length content) + int (length buffer_data) + 28,
                 int (length content),
                 1313821514])) 4) (\<lambda>header.
       ebind (byte_pad (tobytes (astype_uint32
                [int (length buffer_data), 0x004E4942])) 4) (\<lambda>bin_header.
       Inr (header, content, bin_header, buffer_data))))"

definition export_glb :: "env \<Rightarrow> scene \<Rightarrow> bool \<Rightarrow> error + bytes" where
  "export_glb E sc include_normals =
     ebind (glb_parts E sc include_normals) (\<lambda>(header, content, bin_header, buffer_data).
     Inr (header @ content @ bin_header @ buffer_data))"

text \<open>
  \<^verbatim>\<open>export_gltf\<close>. \<open>pairs\<close> is \<^verbatim>\<open>zip(range(0, len(buffer_items), 2), scene.geometry.keys())\<close>;
  reading \<^verbatim>\<open>buffer_items[i + j]\<close> past the end raises IndexError. \<open>files\<close> is a dict.
\<close>

fun gltf_files ::
  "bytes list \<Rightarrow> (nat \<times> string) list \<Rightarrow> json list \<Rightarrow> json list \<Rightarrow> (string \<times> bytes) list
   \<Rightarrow> error + (json list \<times> json list \<times> (string \<times> bytes) list)" where
  "gltf_files buffer_items [] buffers views files = Inr (buffers, views, files)"
| "gltf_files buffer_items ((i, name) # pairs) buffers views files =
     (if \<not> i + 1 < length buffer_items then Inl IndexError
      else
        (let item0 = buffer_items ! i;
             item1 = buffer_items ! (i + 1);
             views' = views @
               [JObj [(''buffer'', JInt (int (length buffers))),
                      (''byteOffset'', JInt 0),
                      (''byteLength'', JInt (int (length item0)))],
                JObj [(''buffer'', JInt (int (length buffers))),
                      (''byteOffset'', JInt (int (length item0))),
                      (''byteLength'', JInt (int (length item1)))]];
             buffer_data = concat (take 2 (drop i buffer_items));
             buffer_name = ''mesh_'' @ name @ ''.bin'';
             buffers' = buffers @
               [JObj [(''uri'', JStr buffer_name),
                      (''byteLength'', JInt (int (length buffer_data)))]]
         in gltf_files buffer_items pairs buffers' views'
              (AList.update buffer_name buffer_data files)))"

definition export_gltf :: "env \<Rightarrow> scene \<Rightarrow> error + (string \<times> bytes) list" where
  "export_gltf E sc =
     ebind (create_gltf_structure E sc False) (\<lambda>(tr, buffer_items).
     let pairs = zip (map (\<lambda>k. 2 * k) [0 ..< (length buffer_items + 1) div 2])
                     (map fst (geometry sc)) in
     ebind (gltf_files buffer_items pairs [] [] []) (\<lambda>(buffers, views, files).
     let tr' = AList.update ''bufferViews'' (JArr views)
                 (AList.update ''buffers'' (JArr buffers) tr) in
     Inr (AList.update ''model.gltf'' (encode_utf8 (dumps E (JObj tr'))) files)))"

section \<open>Import: Python operations on a parsed document\<close>

text \<open>A JSON value used where Python needs an integer (\<^verbatim>\<open>bool\<close> is a subclass of
  \<^verbatim>\<open>int\<close>); anything else ends in a TypeError.\<close>

definition as_int :: "json \<Rightarrow> error + int" where
  "as_int v =
     (case v of JInt i \<Rightarrow> Inr i
      | JBool b \<Rightarrow> Inr (if b then 1 else 0)
      | _ \<Rightarrow> Inl TypeError)"

text \<open>\<^verbatim>\<open>xs[i]\<close> on a Python sequence: a negative index counts from the end.\<close>

definition py_index :: "'a list \<Rightarrow> int \<Rightarrow> error + 'a" where
  "py_index xs i =
     (if 0 \<le> i \<and> i < int (length xs) then Inr (xs ! nat i)
      else if i < 0 \<and> - int (length xs) \<le> i then Inr (xs ! nat (int (length xs) + i))
      else Inl IndexError)"

text \<open>\<^verbatim>\<open>xs[start:end]\<close> with two integers: each bound is counted from the end when
  negative and then clamped to the sequence.\<close>

definition slice_bound :: "nat \<Rightarrow> int \<Rightarrow> nat" where
  "slice_bound n i = (if i < 0 then nat (max (int n + i) 0) else min (nat i) n)"

definition py_slice :: "'a list \<Rightarrow> int \<Rightarrow> int \<Rightarrow> 'a list" where
  "py_slice xs start end =
     (let s = slice_bound (length xs) start; e = slice_bound (length xs) end in
      take (e - s) (drop s xs))"

text \<open>\<^verbatim>\<open>container[key]\<close>: a dict is looked up (its keys are strings, so no other
  hashable key is found), a list or a string is indexed by an integer.\<close>

definition subscript :: "json \<Rightarrow> json \<Rightarrow> error + json" where
  "subscript c k =
     (case c of
        JObj kvs \<Rightarrow>
          (case k of
             JStr s \<Rightarrow> (case map_of kvs s of None \<Rightarrow> Inl KeyError | Some v \<Rightarrow> Inr v)
           | JArr _ \<Rightarrow> Inl TypeError
           | JObj _ \<Rightarrow> Inl TypeError
           | _ \<Rightarrow> Inl KeyError)
      | JArr xs \<Rightarrow> ebind (as_int k) (py_index xs)
      | JStr s \<Rightarrow> ebind (as_int k) (\<lambda>i. ebind (py_index s i) (\<lambda>c. Inr (JStr [c])))
      | _ \<Rightarrow> Inl TypeError)"

definition getitem :: "json \<Rightarrow> string \<Rightarrow> error + json" where
  "getitem c key = subscript c (JStr key)"

text \<open>\<^verbatim>\<open>key in container\<close> for a string key.\<close>

definition contains :: "string \<Rightarrow> json \<Rightarrow> error + bool" where
  "contains key c =
     (case c of
        JObj kvs \<Rightarrow> Inr (key \<in> set (map fst kvs))
      | JArr xs \<Rightarrow> Inr (JStr key \<in> set xs)
      | JStr s \<Rightarrow> Inr (sublist key s)
      | _ \<Rightarrow> Inl TypeError)"

text \<open>Iterating a value: the elements of a list, the keys of a dict, the characters
  of a string.\<close>

definition py_iter :: "json \<Rightarrow> error + json list" where
  "py_iter c =
     (case c of
        JArr xs \<Rightarrow> Inr xs
      | JObj kvs \<Rightarrow> Inr (map (\<lambda>kv. JStr (fst kv)) kvs)
      | JStr s \<Rightarrow> Inr (map (\<lambda>ch. JStr [ch]) s)
      | _ \<Rightarrow> Inl TypeError)"

text \<open>A value used as the key of a dict whose keys are integers: the integer it is
  equal to, if any; a list or a dict is unhashable.\<close>

definition int_key :: "env \<Rightarrow> json \<Rightarrow> error + int option" where
  "int_key E k =
     (case k of
        JInt i \<Rightarrow> Inr (Some i)
      | JBool b \<Rightarrow> Inr (Some (if b then 1 else 0))
      | JFloat f \<Rightarrow> Inr (float_as_int E f)
      | JArr _ \<Rightarrow> Inl TypeError
      | JObj _ \<Rightarrow> Inl TypeError
      | _ \<Rightarrow> Inr None)"

text \<open>\<^verbatim>\<open>v != 4\<close> and the like.\<close>

definition equals_int :: "env \<Rightarrow> json \<Rightarrow> int \<Rightarrow> bool" where
  "equals_int E v n =
     (case v of
        JInt i \<Rightarrow> i = n
      | JBool b \<Rightarrow> (if b then 1 else 0) = n
      | JFloat f \<Rightarrow> float_as_int E f = Some n
      | _ \<Rightarrow> False)"

text \<open>A loop over a list whose body may raise.\<close>

fun emap :: "('a \<Rightarrow> error + 'b) \<Rightarrow> 'a list \<Rightarrow> error + 'b list" where
  "emap f [] = Inr []"
| "emap f (x # xs) = ebind (f x) (\<lambda>y. ebind (emap f xs) (\<lambda>ys. Inr (y # ys)))"

section \<open>Import: typed arrays\<close>

text \<open>\<^verbatim>\<open>_types\<close> and \<^verbatim>\<open>_shapes\<close>; a scalar has the shape \<open>-1\<close>.\<close>

definition types_table :: "int \<Rightarrow> dtype option" where
  "types_table c =
     (if c = 5120 then Some I1 else if c = 5121 then Some U1
      else if c = 5122 then Some I2 else if c = 5123 then Some U2
      else if c = 5125 then Some U4 else if c = 5126 then Some F4
      else None)"

definition shapes_table :: "string \<Rightarrow> int list option" where
  "shapes_table t =
     (if t = ''SCALAR'' then Some [-1]
      else if t = ''VEC2'' then Some [-1, 2]
      else if t = ''VEC3'' then Some [-1, 3]
      else if t = ''VEC4'' then Some [-1, 4]
      else if t = ''MAT2'' then Some [2, 2]
      else if t = ''MAT3'' then Some [3, 3]
      else if t = ''MAT4'' then Some [4, 4]
      else None)"

fun itemsize :: "dtype \<Rightarrow> nat" where
  "itemsize I1 = 1" | "itemsize U1 = 1" | "itemsize I2 = 2"
| "itemsize U2 = 2" | "itemsize U4 = 4" | "itemsize F4 = 4"

text \<open>A numpy array: element type, shape, and the elements in row-major order, each
  given by the unsigned value of its bytes.\<close>

record ndarray =
  dtype :: dtype
  shape :: "nat list"
  items :: "nat list"

text \<open>\<^verbatim>\<open>np.frombuffer(data, dtype=dt)\<close>: ValueError unless the size of the buffer is a
  multiple of the element size.\<close>

definition frombuffer :: "bytes \<Rightarrow> dtype \<Rightarrow> error + ndarray" where
  "frombuffer data dt =
     (let k = itemsize dt; n = length data div k in
      if length data mod k \<noteq> 0 then Inl ValueError
      else Inr \<lparr>dtype = dt, shape = [n],
                items = map (\<lambda>i. le_decode (take k (drop (i * k) data))) [0 ..< n]\<rparr>)"

text \<open>\<^verbatim>\<open>array.reshape(spec)\<close>: one dimension may be \<open>-1\<close> and is then inferred.\<close>

definition reshape :: "ndarray \<Rightarrow> int list \<Rightarrow> error + ndarray" where
  "reshape a spec =
     (let size = length (items a);
          known = nat (prod_list (filter (\<lambda>d. 0 \<le> d) spec));
          unknown = length (filter (\<lambda>d. d < 0) spec) in
      if \<exists>d \<in> set spec. d < -1 then Inl ValueError
      else if unknown > 1 then Inl ValueError
      else if unknown = 1 then
        (if known = 0 then Inl ValueError
         else if size mod known \<noteq> 0 then Inl ValueError
         else Inr (a\<lparr>shape := map (\<lambda>d. if d < 0 then size div known else nat d) spec\<rparr>))
      else if known \<noteq> size then Inl ValueError
      else Inr (a\<lparr>shape := map nat spec\<rparr>))"

text \<open>\<^verbatim>\<open>len(array)\<close>\<close>

definition array_len :: "ndarray \<Rightarrow> error + nat" where
  "array_len a = (case shape a of [] \<Rightarrow> Inl TypeError | n # _ \<Rightarrow> Inr n)"

section \<open>Import: buffer views and accessors\<close>

text \<open>The first loop of \<^verbatim>\<open>_read_buffers\<close>, for one buffer view. The sum
  \<^verbatim>\<open>start + view['byteLength']\<close> is formed on integers.\<close>

definition read_view :: "bytes list \<Rightarrow> json \<Rightarrow> error + bytes" where
  "read_view buffers view =
     ebind (getitem view ''byteOffset'') (\<lambda>jstart.
     ebind (getitem view ''byteLength'') (\<lambda>jlen.
     ebind (as_int jstart) (\<lambda>start.
     ebind (as_int jlen) (\<lambda>byte_length.
     let end = start + byte_length in
     ebind (getitem view ''buffer'') (\<lambda>jbuf.
     ebind (as_int jbuf) (\<lambda>ibuf.
     ebind (py_index buffers ibuf) (\<lambda>buffer.
     let v = py_slice buffer start end in
     if int (length v) \<noteq> byte_length then Inl AssertionError else Inr v)))))))"

text \<open>\<^verbatim>\<open>_types[key]\<close> and \<^verbatim>\<open>_shapes[key]\<close> for a key taken from the document.\<close>

definition lookup_type :: "env \<Rightarrow> json \<Rightarrow> error + dtype" where
  "lookup_type E key =
     ebind (int_key E key) (\<lambda>k.
     case (case k of None \<Rightarrow> None | Some c \<Rightarrow> types_table c) of
       None \<Rightarrow> Inl KeyError
     | Some dt \<Rightarrow> Inr dt)"

definition lookup_shape :: "json \<Rightarrow> error + int list" where
  "lookup_shape key =
     (case key of
        JArr _ \<Rightarrow> Inl TypeError
      | JObj _ \<Rightarrow> Inl TypeError
      | JStr t \<Rightarrow> (case shapes_table t of None \<Rightarrow> Inl KeyError | Some spec \<Rightarrow> Inr spec)
      | _ \<Rightarrow> Inl KeyError)"

text \<open>
  \<^verbatim>\<open>per_count\<close> is a numpy \<^verbatim>\<open>int64\<close>, so the products and sums it enters are formed by
  numpy: between a Python integer that fits in 64 bits and an \<^verbatim>\<open>int64\<close> the result is an
  \<^verbatim>\<open>int64\<close> and wraps around; a Python integer from \<open>2^63\<close> up to \<open>2^64 - 1\<close> is taken
  as a \<^verbatim>\<open>uint64\<close> and the result is a float; any other Python integer is kept as an
  object and the result is an exact Python integer. A float is refused as a slice bound.
\<close>

definition int64 :: "int \<Rightarrow> int" where
  "int64 x = (x + 9223372036854775808) mod 18446744073709551616 - 9223372036854775808"

datatype number = NpInt64 int | PyInt int | NpFloat

definition np_arith :: "(int \<Rightarrow> int \<Rightarrow> int) \<Rightarrow> int \<Rightarrow> int \<Rightarrow> number" where
  "np_arith f m p =
     (if - 9223372036854775808 \<le> m \<and> m < 9223372036854775808 then NpInt64 (int64 (f m p))
      else if 9223372036854775808 \<le> m \<and> m < 18446744073709551616 then NpFloat
      else PyInt (f m p))"

definition slice_index :: "number \<Rightarrow> error + int" where
  "slice_index x = (case x of NpInt64 i \<Rightarrow> Inr i | PyInt i \<Rightarrow> Inr i | NpFloat \<Rightarrow> Inl TypeError)"

text \<open>The second loop of \<^verbatim>\<open>_read_buffers\<close>, for one accessor.\<close>

definition read_accessor :: "env \<Rightarrow> bytes list \<Rightarrow> json \<Rightarrow> error + ndarray" where
  "read_accessor E views a =
     ebind (getitem a ''bufferView'') (\<lambda>jview.
     ebind (as_int jview) (\<lambda>iview.
     ebind (py_index views iview) (\<lambda>data.
     ebind (getitem a ''componentType'') (\<lambda>jct.
     ebind (lookup_type E jct) (\<lambda>dt.
     ebind (getitem a ''type'') (\<lambda>jtype.
     ebind (lookup_shape jtype) (\<lambda>spec.
     ebind (contains ''byteOffset'' a) (\<lambda>has_offset.
     ebind (if has_offset then ebind (getitem a ''byteOffset'') as_int else Inr 0) (\<lambda>start.
     let per_count = \<bar>prod_list spec\<bar> in
     ebind (getitem a ''count'') (\<lambda>jcount.
     ebind (as_int jcount) (\<lambda>count.
     let length' = np_arith (*) (int (itemsize dt) * count) per_count;
         end = (case length' of
                  NpInt64 l \<Rightarrow> np_arith (+) start l
                | PyInt l \<Rightarrow> PyInt (start + l)
                | NpFloat \<Rightarrow> NpFloat) in
     ebind (slice_index end) (\<lambda>stop.
     ebind (frombuffer (py_slice data start stop) dt) (\<lambda>flat.
     ebind (reshape flat spec) (\<lambda>array.
     ebind (array_len array) (\<lambda>n.
     if int n \<noteq> count then Inl AssertionError else Inr array)))))))))))))))"

section \<open>Import: materials\<close>

text \<open>
  \<^verbatim>\<open>_parse_materials\<close>. A decoded image is kept as opaque bytes. The constructor
  \<^verbatim>\<open>PBRMaterial(**pbr)\<close> belongs to another module; a material is represented by the
  keyword dict it is built from.
\<close>

datatype pbr_value = PJson json | PImage "bytes option"

type_synonym material = "(string \<times> pbr_value) list"

definition parse_images ::
  "(bytes \<Rightarrow> bytes option) \<Rightarrow> json \<Rightarrow> bytes list \<Rightarrow> error + bytes option list option" where
  "parse_images pil header views =
     ebind (contains ''images'' header) (\<lambda>has_images.
     if \<not> has_images then Inr None
     else
       ebind (getitem header ''images'') (\<lambda>imgs.
       ebind (py_iter imgs) (\<lambda>img_list.
       ebind (emap (\<lambda>img.
                ebind (getitem img ''bufferView'') (\<lambda>jv.
                ebind (as_int jv) (\<lambda>iv.
                ebind (py_index views iv) (\<lambda>blob. Inr (pil blob))))) img_list)
         (\<lambda>images. Inr (Some images)))))"

text \<open>The body of the loop over \<^verbatim>\<open>loopable.items()\<close>: the entry of \<^verbatim>\<open>pbr\<close> it
  sets, if any.\<close>

definition pbr_entry ::
  "json \<Rightarrow> bytes option list option \<Rightarrow> string \<times> json \<Rightarrow> error + (string \<times> pbr_value) list" where
  "pbr_entry header images kv =
     (case snd kv of
        JObj d \<Rightarrow>
          (if ''index'' \<in> set (map fst d) then
             ebind (getitem (JObj d) ''index'') (\<lambda>ti.
             ebind (getitem header ''textures'') (\<lambda>textures.
             ebind (subscript textures ti) (\<lambda>texture.
             ebind (getitem texture ''source'') (\<lambda>jidx.
             case images of
               None \<Rightarrow> Inl TypeError
             | Some imgs \<Rightarrow>
                 ebind (as_int jidx) (\<lambda>idx.
                 ebind (py_index imgs idx) (\<lambda>img. Inr [(fst kv, PImage img)]))))))
           else Inr [])
      | v \<Rightarrow> Inr [(fst kv, PJson v)])"

text \<open>One material: \<^verbatim>\<open>mat.copy()\<close>, the flattening of \<^verbatim>\<open>pbrMetallicRoughness\<close> (popped,
  then merged by \<^verbatim>\<open>update\<close>, which is followed for a dict only), and the loop.\<close>

definition parse_material :: "json \<Rightarrow> bytes option list option \<Rightarrow> json \<Rightarrow> error + material" where
  "parse_material header images mat =
     (case mat of
        JObj kvs \<Rightarrow>
          ebind
            (case map_of kvs ''pbrMetallicRoughness'' of
               None \<Rightarrow> Inr kvs
             | Some (JObj inner) \<Rightarrow>
                 Inr (foldl (\<lambda>acc kv. AList.update (fst kv) (snd kv) acc)
                        (AList.delete ''pbrMetallicRoughness'' kvs) inner)
             | Some _ \<Rightarrow> Inl TypeError)
            (\<lambda>loopable.
               ebind (emap (pbr_entry header images) loopable) (\<lambda>entries.
               Inr (concat entries)))
      | JArr xs \<Rightarrow>
          (if JStr ''pbrMetallicRoughness'' \<in> set xs then Inl TypeError
           else Inl AttributeError)
      | _ \<Rightarrow> Inl AttributeError)"

definition parse_materials :: "env \<Rightarrow> json \<Rightarrow> bytes list \<Rightarrow> error + material list" where
  "parse_materials E header views =
     (case pil_open E of
        None \<Rightarrow> Inr []
      | Some pil \<Rightarrow>
          ebind (parse_images pil header views) (\<lambda>images.
          ebind (contains ''materials'' header) (\<lambda>has_materials.
          if \<not> has_materials then Inr []
          else
            ebind (getitem header ''materials'') (\<lambda>mats.
            ebind (py_iter mats) (\<lambda>mat_list.
            emap (parse_material header images) mat_list)))))"

section \<open>Import: geometry\<close>

text \<open>
  The keyword dict built for one primitive. \<open>Given\<close> is a value passed in by the caller
  of \<^verbatim>\<open>load_glb\<close> through \<^verbatim>\<open>**mesh_kwargs\<close>. When the caller passes a \<^verbatim>\<open>metadata\<close> dict,
  \<^verbatim>\<open>kwargs.update(mesh_kwargs)\<close> makes every primitive share that one object:
  \<open>SharedMetadata\<close> stands for the reference, and the object itself is threaded through
  the loop.
\<close>

datatype kwarg =
    Metadata "(string \<times> string) list"
  | SharedMetadata
  | Array ndarray
  | Visual ndarray material
  | Given string

type_synonym kwargs = "(string \<times> kwarg) list"

definition dict_update :: "('k \<times> 'v) list \<Rightarrow> ('k \<times> 'v) list \<Rightarrow> ('k \<times> 'v) list" where
  "dict_update d other = foldl (\<lambda>acc kv. AList.update (fst kv) (snd kv) acc) d other"

text \<open>The metadata of a mesh: its \<^verbatim>\<open>extras.units\<close>, when they can be read.\<close>

definition mesh_metadata :: "env \<Rightarrow> json \<Rightarrow> error + (string \<times> string) list" where
  "mesh_metadata E m =
     ebind (contains ''extras'' m) (\<lambda>has_extras.
     if \<not> has_extras then Inr []
     else
       ebind (getitem m ''extras'') (\<lambda>extras.
       ebind (contains ''units'' extras) (\<lambda>has_units.
       if \<not> has_units then Inr []
       else
         (case getitem extras ''units'' of
            Inl _ \<Rightarrow> Inr []
          | Inr u \<Rightarrow> Inr [(''units'', (case u of JStr t \<Rightarrow> t | _ \<Rightarrow> py_str E u))]))))"

text \<open>\<^verbatim>\<open>uv[:, 1] = 1.0 - uv[:, 1]\<close> on a copy: the array needs two axes and a column 1.\<close>

definition flip_uv :: "env \<Rightarrow> ndarray \<Rightarrow> error + ndarray" where
  "flip_uv E uv =
     (case shape uv of
        [r, c] \<Rightarrow>
          (if c < 2 then Inl IndexError
           else Inr (uv\<lparr>items :=
                  map (\<lambda>(k, x). if k mod c = 1 then flip_v E (dtype uv) x else x)
                    (zip [0 ..< length (items uv)] (items uv))\<rparr>))
      | _ \<Rightarrow> Inl IndexError)"

text \<open>\<^verbatim>\<open>access[v]\<close> for an index taken from the document.\<close>

definition access_at :: "ndarray list \<Rightarrow> json \<Rightarrow> error + ndarray" where
  "access_at access v = ebind (as_int v) (py_index access)"

text \<open>The name under which the primitive \<open>j\<close> of the mesh \<open>m\<close> is stored.\<close>

definition primitive_name :: "env \<Rightarrow> json \<Rightarrow> nat \<Rightarrow> nat \<Rightarrow> error + json" where
  "primitive_name E m n_primitives j =
     ebind (contains ''name'' m) (\<lambda>has_name.
     ebind (if has_name then getitem m ''name'' else Inr (JStr ''GLTF_geometry'')) (\<lambda>name.
     if n_primitives > 1 then
       (case name of
          JStr t \<Rightarrow> Inr (JStr (t @ ''_'' @ str_int (int j)))
        | _ \<Rightarrow> Inl TypeError)
     else
       (case name of
          JArr _ \<Rightarrow> Inl TypeError
        | JObj _ \<Rightarrow> Inl TypeError
        | _ \<Rightarrow> Inr name)))"

text \<open>\<^verbatim>\<open>kwargs = {'metadata': {}}; kwargs.update(mesh_kwargs);
  kwargs['metadata'].update(metadata)\<close>. \<open>shared\<close> is the caller's metadata dict, if the
  caller passed one; a caller's \<^verbatim>\<open>metadata\<close> that is no dict has no \<^verbatim>\<open>update\<close>.\<close>

definition primitive_kwargs ::
  "kwargs \<Rightarrow> (string \<times> string) list \<Rightarrow> (string \<times> string) list option
   \<Rightarrow> error + (kwargs \<times> (string \<times> string) list option)" where
  "primitive_kwargs mesh_kwargs metadata shared =
     (let kwargs0 = dict_update [(''metadata'', Metadata [])] mesh_kwargs in
      if ''metadata'' \<in> set (map fst mesh_kwargs) then
        (case shared of
           Some d \<Rightarrow>
             Inr (AList.update ''metadata'' SharedMetadata kwargs0,
                  Some (dict_update d metadata))
         | None \<Rightarrow> Inl AttributeError)
      else Inr (AList.update ''metadata'' (Metadata metadata) kwargs0, shared))"

text \<open>The texture branch: \<^verbatim>\<open>if 'TEXCOORD_0' in p['attributes']: ...\<close>\<close>

definition primitive_visual ::
  "env \<Rightarrow> ndarray list \<Rightarrow> material list \<Rightarrow> json \<Rightarrow> json \<Rightarrow> kwargs \<Rightarrow> error + kwargs" where
  "primitive_visual E access mats p attrs kwargs =
     ebind (contains ''TEXCOORD_0'' attrs) (\<lambda>has_uv.
     if \<not> has_uv then Inr kwargs
     else
       ebind (contains ''material'' p) (\<lambda>has_material.
       if \<not> has_material then Inr kwargs
       else
         ebind (getitem attrs ''TEXCOORD_0'') (\<lambda>juv.
         ebind (access_at access juv) (\<lambda>uv0.
         ebind (flip_uv E uv0) (\<lambda>uv.
         ebind (getitem p ''material'') (\<lambda>jmat.
         ebind (as_int jmat) (\<lambda>imat.
         ebind (py_index mats imat) (\<lambda>mat.
         Inr (AList.update ''visual'' (Visual uv mat) kwargs)))))))))"

text \<open>\<^verbatim>\<open>if 'mode' in p and p['mode'] != 4: continue\<close>\<close>

definition skip_primitive :: "env \<Rightarrow> json \<Rightarrow> error + bool" where
  "skip_primitive E p =
     ebind (contains ''mode'' p) (\<lambda>has_mode.
     if \<not> has_mode then Inr False
     else ebind (getitem p ''mode'') (\<lambda>mode. Inr (\<not> equals_int E mode 4)))"

text \<open>
  The body of the loop over the primitives of one mesh. \<open>None\<close> is \<^verbatim>\<open>continue\<close>;
  otherwise the result is the name, the keyword dict stored under it, and the caller's
  metadata object after the update.
\<close>

definition read_primitive ::
  "env \<Rightarrow> kwargs \<Rightarrow> ndarray list \<Rightarrow> material list \<Rightarrow> json \<Rightarrow> (string \<times> string) list
   \<Rightarrow> nat \<Rightarrow> (string \<times> string) list option \<Rightarrow> nat \<Rightarrow> json
   \<Rightarrow> error + (json \<times> kwargs \<times> (string \<times> string) list option) option" where
  "read_primitive E mesh_kwargs access mats m metadata n_primitives shared j p =
     ebind (skip_primitive E p) (\<lambda>skip.
     if skip then Inr None
     else
       ebind (primitive_kwargs mesh_kwargs metadata shared) (\<lambda>(kwargs1, shared').
       ebind (getitem p ''indices'') (\<lambda>jind.
       ebind (access_at access jind) (\<lambda>ind.
       ebind (reshape ind [-1, 3]) (\<lambda>faces_array.
       ebind (getitem p ''attributes'') (\<lambda>attrs.
       ebind (getitem attrs ''POSITION'') (\<lambda>jpos.
       ebind (access_at access jpos) (\<lambda>vertices_array.
       ebind (primitive_visual E access mats p attrs
                (AList.update ''vertices'' (Array vertices_array)
                   (AList.update ''faces'' (Array faces_array) kwargs1))) (\<lambda>kwargs3.
       ebind (primitive_name E m n_primitives j) (\<lambda>name.
       Inr (Some (name, kwargs3, shared'))))))))))))"

text \<open>
  \<^verbatim>\<open>meshes[name] = kwargs\<close> on the ordered dict: an entry whose key is equal to \<open>name\<close>
  keeps its place and its key and gets the new value, otherwise the entry is appended.
  Python compares numbers by value (\<^verbatim>\<open>True == 1 == 1.0\<close>) and everything else that can
  be a key here by structure; \<open>name_key\<close> maps a key to the representative of its class.
\<close>

definition name_key :: "env \<Rightarrow> json \<Rightarrow> json" where
  "name_key E k =
     (case k of
        JBool b \<Rightarrow> JInt (if b then 1 else 0)
      | JFloat f \<Rightarrow> (case float_as_int E f of Some i \<Rightarrow> JInt i | None \<Rightarrow> JFloat f)
      | _ \<Rightarrow> k)"

fun setitem :: "env \<Rightarrow> json \<Rightarrow> 'v \<Rightarrow> (json \<times> 'v) list \<Rightarrow> (json \<times> 'v) list" where
  "setitem E k v [] = [(k, v)]"
| "setitem E k v (kv # d) =
     (if name_key E (fst kv) = name_key E k then (fst kv, v) # d else kv # setitem E k v d)"

text \<open>The loop over \<^verbatim>\<open>enumerate(m['primitives'])\<close>; \<open>meshes\<close> is the ordered dict of
  geometries, \<open>names\<close> collects \<^verbatim>\<open>mesh_prim[index]\<close>.\<close>

fun read_primitives ::
  "env \<Rightarrow> kwargs \<Rightarrow> ndarray list \<Rightarrow> material list \<Rightarrow> json \<Rightarrow> (string \<times> string) list
   \<Rightarrow> nat \<Rightarrow> (nat \<times> json) list
   \<Rightarrow> (json \<times> kwargs) list \<times> json list \<times> (string \<times> string) list option
   \<Rightarrow> error + ((json \<times> kwargs) list \<times> json list \<times> (string \<times> string) list option)" where
  "read_primitives E mesh_kwargs access mats m metadata n_primitives [] st = Inr st"
| "read_primitives E mesh_kwargs access mats m metadata n_primitives ((j, p) # rest)
     (meshes, names, shared) =
     ebind (read_primitive E mesh_kwargs access mats m metadata n_primitives shared j p) (\<lambda>r.
     case r of
       None \<Rightarrow>
         read_primitives E mesh_kwargs access mats m metadata n_primitives rest
           (meshes, names, shared)
     | Some (name, kwargs, shared') \<Rightarrow>
         read_primitives E mesh_kwargs access mats m metadata n_primitives rest
           (setitem E name kwargs meshes, names @ [name], shared'))"

text \<open>The loop over \<^verbatim>\<open>enumerate(header['meshes'])\<close>; \<open>mesh_prim\<close> is the
  \<^verbatim>\<open>defaultdict(list)\<close> from mesh index to generated names.\<close>

fun read_meshes ::
  "env \<Rightarrow> kwargs \<Rightarrow> ndarray list \<Rightarrow> material list \<Rightarrow> (nat \<times> json) list
   \<Rightarrow> (json \<times> kwargs) list \<times> (nat \<Rightarrow> json list) \<times> (string \<times> string) list option
   \<Rightarrow> error + ((json \<times> kwargs) list \<times> (nat \<Rightarrow> json list) \<times> (string \<times> string) list option)"
  where
  "read_meshes E mesh_kwargs access mats [] st = Inr st"
| "read_meshes E mesh_kwargs access mats ((index, m) # rest) (meshes, mesh_prim, shared) =
     ebind (mesh_metadata E m) (\<lambda>metadata.
     ebind (getitem m ''primitives'') (\<lambda>prims.
     ebind (py_iter prims) (\<lambda>prim_list.
     ebind (read_primitives E mesh_kwargs access mats m metadata (length prim_list)
              (zip [0 ..< length prim_list] prim_list) (meshes, mesh_prim index, shared))
       (\<lambda>(meshes', names, shared').
          read_meshes E mesh_kwargs access mats rest
            (meshes', mesh_prim(index := names), shared')))))"

section \<open>Import: transform graph\<close>

text \<open>The keys of the dict \<^verbatim>\<open>names\<close>: the node indexes, and the base frame, which is a
  string.\<close>

datatype key = IntKey int | StrKey string

text \<open>One entry of \<^verbatim>\<open>graph\<close>: the keyword dict passed to \<^verbatim>\<open>scene.graph.update\<close>.\<close>

record edge =
  frame_from :: json
  frame_to :: json
  matrix :: "f64 list list"
  edge_geometry :: "json option"

text \<open>\<^verbatim>\<open>names[i] = n['name']\<close> if the node has a name, else \<^verbatim>\<open>str(i)\<close>.\<close>

definition node_name :: "env \<Rightarrow> nat \<times> json \<Rightarrow> error + key \<times> json" where
  "node_name E ix =
     ebind (contains ''name'' (snd ix)) (\<lambda>has_name.
     if has_name then ebind (getitem (snd ix) ''name'') (\<lambda>name. Inr (IntKey (int (fst ix)), name))
     else Inr (IntKey (int (fst ix)), JStr (str_int (int (fst ix)))))"

definition node_names :: "env \<Rightarrow> json list \<Rightarrow> error + (key \<times> json) list" where
  "node_names E node_list = emap (node_name E) (zip [0 ..< length node_list] node_list)"

text \<open>\<^verbatim>\<open>base_frame = 'world'; if base_frame in names: base_frame = ...\<close>, where
  \<^verbatim>\<open>in\<close> tests the keys of the dict.\<close>

definition choose_base_frame :: "env \<Rightarrow> (key \<times> json) list \<Rightarrow> string" where
  "choose_base_frame E names =
     (let base_frame = ''world'' in
      if StrKey base_frame \<in> set (map fst names) then random_frame E else base_frame)"

text \<open>\<^verbatim>\<open>names[v]\<close> for a value \<open>v\<close> of the queue.\<close>

definition names_key :: "env \<Rightarrow> json \<Rightarrow> error + key option" where
  "names_key E v =
     (case v of
        JStr t \<Rightarrow> Inr (Some (StrKey t))
      | _ \<Rightarrow> ebind (int_key E v) (\<lambda>k. Inr (map_option IntKey k)))"

definition lookup_name :: "env \<Rightarrow> (key \<times> json) list \<Rightarrow> json \<Rightarrow> error + json" where
  "lookup_name E names v =
     ebind (names_key E v) (\<lambda>k.
     case (case k of None \<Rightarrow> None | Some k' \<Rightarrow> map_of names k') of
       None \<Rightarrow> Inl KeyError
     | Some name \<Rightarrow> Inr name)"

text \<open>\<^verbatim>\<open>np.array(m, dtype=np.float64).reshape((4, 4)).T\<close> on the flat elements, and
  \<^verbatim>\<open>np.eye(4)\<close>; \<open>0x3FF0000000000000\<close> is the float \<open>1.0\<close>.\<close>

definition reshape44_T :: "'a list \<Rightarrow> 'a list list" where
  "reshape44_T flat = map (\<lambda>i. map (\<lambda>j. flat ! (4 * j + i)) [0, 1, 2, 3]) [0, 1, 2, 3]"

definition eye4 :: "f64 list list" where
  "eye4 = map (\<lambda>i. map (\<lambda>j. if i = j then 0x3FF0000000000000 else 0) [0, 1, 2, 3 :: nat])
            [0, 1, 2, 3 :: nat]"

definition node_matrix :: "env \<Rightarrow> json \<Rightarrow> error + f64 list list" where
  "node_matrix E child =
     ebind (contains ''matrix'' child) (\<lambda>has_matrix.
     if has_matrix then
       ebind (getitem child ''matrix'') (\<lambda>m.
       ebind (np_array_f64 E m) (\<lambda>flat.
       if length flat \<noteq> 16 then Inl ValueError else Inr (reshape44_T flat)))
     else Inr eye4)"

text \<open>\<^verbatim>\<open>mesh_prim[child['mesh']]\<close>: a missing key of the \<^verbatim>\<open>defaultdict\<close> gives the empty
  list.\<close>

definition mesh_names :: "env \<Rightarrow> (nat \<Rightarrow> json list) \<Rightarrow> json \<Rightarrow> error + json list" where
  "mesh_names E mesh_prim v =
     ebind (int_key E v) (\<lambda>k.
     case k of
       None \<Rightarrow> Inr []
     | Some i \<Rightarrow> Inr (if 0 \<le> i then mesh_prim (nat i) else []))"

text \<open>\<^verbatim>\<open>'{}_{}'.format(name, util.unique_id(length=6, increment=n).upper())\<close>\<close>

definition instance_name :: "env \<Rightarrow> json \<Rightarrow> nat \<Rightarrow> string" where
  "instance_name E name n =
     (case name of JStr t \<Rightarrow> t | _ \<Rightarrow> py_str E name) @ ''_'' @ upper E (unique_id E 6 n)"

text \<open>
  The body of the \<^verbatim>\<open>while\<close> loop for the popped pair \<open>(a, b)\<close>, with \<open>n_graph\<close> the
  length of \<^verbatim>\<open>graph\<close> before: the pairs it pushes on the queue and the edges it appends
  to the graph.
\<close>

definition graph_step ::
  "env \<Rightarrow> json \<Rightarrow> (key \<times> json) list \<Rightarrow> (nat \<Rightarrow> json list) \<Rightarrow> json \<times> json \<Rightarrow> nat
   \<Rightarrow> error + ((json \<times> json) list \<times> edge list)" where
  "graph_step E nodes names mesh_prim ab n_graph =
     (let a = fst ab; b = snd ab in
      ebind (subscript nodes b) (\<lambda>child.
      ebind (contains ''children'' child) (\<lambda>has_children.
      ebind (if has_children then
               ebind (getitem child ''children'') (\<lambda>cs.
               ebind (py_iter cs) (\<lambda>is. Inr (map (\<lambda>i. (b, i)) is)))
             else Inr []) (\<lambda>pushed.
      ebind (lookup_name E names a) (\<lambda>name_a.
      ebind (lookup_name E names b) (\<lambda>name_b.
      ebind (node_matrix E child) (\<lambda>mat.
      let kwargs = \<lparr>frame_from = name_a, frame_to = name_b, matrix = mat,
                    edge_geometry = None\<rparr> in
      ebind (contains ''mesh'' child) (\<lambda>has_mesh.
      if \<not> has_mesh then Inr (pushed, [kwargs])
      else
        ebind (getitem child ''mesh'') (\<lambda>jmesh.
        ebind (mesh_names E mesh_prim jmesh) (\<lambda>geometries.
        Inr (pushed,
             kwargs #
             map (\<lambda>(k, name).
                    kwargs\<lparr>edge_geometry := Some name,
                           frame_to := JStr (instance_name E name (n_graph + 1 + k))\<rparr>)
               (zip [0 ..< length geometries] geometries))))))))))))"

text \<open>The \<^verbatim>\<open>while len(queue) > 0\<close> loop; \<^verbatim>\<open>queue.pop()\<close> takes the last pair. A document
  whose nodes form a cycle keeps the loop running for ever: the result is then \<open>None\<close>.\<close>

partial_function (option) graph_loop ::
  "env \<Rightarrow> json \<Rightarrow> (key \<times> json) list \<Rightarrow> (nat \<Rightarrow> json list) \<Rightarrow> (json \<times> json) list \<Rightarrow> edge list
   \<Rightarrow> (error + edge list) option" where
  "graph_loop E nodes names mesh_prim queue graph =
     (if queue = [] then Some (Inr graph)
      else
        (case graph_step E nodes names mesh_prim (last queue) (length graph) of
           Inl e \<Rightarrow> Some (Inl e)
         | Inr (pushed, edges) \<Rightarrow>
             graph_loop E nodes names mesh_prim (butlast queue @ pushed) (graph @ edges)))"

section \<open>Import: \<^verbatim>\<open>_read_buffers\<close> and \<^verbatim>\<open>load_glb\<close>\<close>

text \<open>The result dict of \<^verbatim>\<open>_read_buffers\<close> (its \<^verbatim>\<open>class\<close> entry is the constant
  \<^verbatim>\<open>'Scene'\<close>), together with the caller's metadata object as the call leaves it.\<close>

record result =
  result_geometry :: "(json \<times> kwargs) list"
  result_graph :: "edge list"
  result_base_frame :: string
  result_metadata :: "(string \<times> string) list option"

text \<open>\<^verbatim>\<open>_read_buffers\<close> up to the geometry dict: views, accessors, materials, meshes.\<close>

definition read_geometry ::
  "env \<Rightarrow> kwargs \<Rightarrow> json \<Rightarrow> bytes list
   \<Rightarrow> error + ((json \<times> kwargs) list \<times> (nat \<Rightarrow> json list) \<times> (string \<times> string) list option)"
  where
  "read_geometry E mesh_kwargs header buffers =
     ebind (getitem header ''bufferViews'') (\<lambda>jviews.
     ebind (py_iter jviews) (\<lambda>view_list.
     ebind (emap (read_view buffers) view_list) (\<lambda>views.
     ebind (getitem header ''accessors'') (\<lambda>jaccs.
     ebind (py_iter jaccs) (\<lambda>acc_list.
     ebind (emap (read_accessor E views) acc_list) (\<lambda>access.
     ebind (parse_materials E header views) (\<lambda>mats.
     ebind (getitem header ''meshes'') (\<lambda>jmeshes.
     ebind (py_iter jmeshes) (\<lambda>mesh_list.
     read_meshes E mesh_kwargs access mats (zip [0 ..< length mesh_list] mesh_list)
       ([], (\<lambda>_. []),
        (case map_of mesh_kwargs ''metadata'' of Some (Metadata d) \<Rightarrow> Some d | _ \<Rightarrow> None))
     )))))))))"

text \<open>The names, the base frame and the initial queue.\<close>

definition read_frames ::
  "env \<Rightarrow> json \<Rightarrow> error + (json \<times> (key \<times> json) list \<times> string \<times> (json \<times> json) list)" where
  "read_frames E header =
     ebind (getitem header ''nodes'') (\<lambda>nodes.
     ebind (py_iter nodes) (\<lambda>node_list.
     ebind (node_names E node_list) (\<lambda>names0.
     let base_frame = choose_base_frame E names0;
         names = AList.update (StrKey base_frame) (JStr base_frame) names0 in
     ebind (getitem header ''scenes'') (\<lambda>scenes.
     ebind (getitem header ''scene'') (\<lambda>jscene.
     ebind (subscript scenes jscene) (\<lambda>sc.
     ebind (getitem sc ''nodes'') (\<lambda>jroots.
     ebind (py_iter jroots) (\<lambda>roots.
     Inr (nodes, names, base_frame, map (\<lambda>root. (JStr base_frame, root)) roots)))))))))"

definition read_buffers :: "env \<Rightarrow> json \<Rightarrow> bytes list \<Rightarrow> kwargs \<Rightarrow> (error + result) option" where
  "read_buffers E header buffers mesh_kwargs =
     (case read_geometry E mesh_kwargs header buffers of
        Inl e \<Rightarrow> Some (Inl e)
      | Inr (meshes, mesh_prim, shared) \<Rightarrow>
          (case read_frames E header of
             Inl e \<Rightarrow> Some (Inl e)
           | Inr (nodes, names, base_frame, queue) \<Rightarrow>
               (case graph_loop E nodes names mesh_prim queue [] of
                  None \<Rightarrow> None
                | Some (Inl e) \<Rightarrow> Some (Inl e)
                | Some (Inr graph) \<Rightarrow>
                    Some (Inr \<lparr>result_geometry = meshes, result_graph = graph,
                               result_base_frame = base_frame,
                               result_metadata = shared\<rparr>))))"

text \<open>
  \<^verbatim>\<open>load_glb\<close>. The argument \<open>data\<close> holds the bytes of the file object from its
  current position on, so that \<^verbatim>\<open>file_obj.tell() - start\<close> is the number of bytes read.
  The first 20 bytes are read as \<^verbatim>\<open><u4\<close> words; \<^verbatim>\<open>head[0]\<close> and \<^verbatim>\<open>head[1]\<close> raise
  IndexError when the word is missing, and unpacking \<^verbatim>\<open>head[2:]\<close> into three names
  raises ValueError when it does not hold three words.
\<close>

definition read_head :: "bytes \<Rightarrow> error + (nat \<times> nat)" where
  "read_head data =
     ebind (frombuffer (take 20 data) U4) (\<lambda>head_array.
     let head = items head_array in
     if head = [] then Inl IndexError
     else if int (head ! 0) \<noteq> magic_gltf then Inl ValueError
     else if length head < 2 then Inl IndexError
     else if head ! 1 \<noteq> 2 then Inl ValueError
     else
       (case drop 2 head of
          [length', chunk_length, chunk_type] \<Rightarrow>
            if int chunk_type \<noteq> magic_json then Inl ValueError
            else Inr (length', chunk_length)
        | _ \<Rightarrow> Inl ValueError))"

text \<open>The loop that reads the binary chunks: \<open>rest\<close> are the unread bytes, \<open>pos\<close> the
  number of bytes read so far, \<open>length'\<close> the total length announced by the header.\<close>

function read_chunks :: "bytes \<Rightarrow> nat \<Rightarrow> nat \<Rightarrow> bytes list \<Rightarrow> error + bytes list" where
  "read_chunks rest pos length' buffers =
     (if \<not> pos < length' then Inr buffers
      else
        (let chunk_head = take 8 rest in
         if length chunk_head \<noteq> 8 then Inr buffers
         else
           (let chunk_length = le_decode (take 4 chunk_head);
                chunk_type = le_decode (drop 4 chunk_head) in
            if int chunk_type \<noteq> magic_bin then Inl ValueError
            else
              (let chunk_data = take chunk_length (drop 8 rest) in
               if length chunk_data \<noteq> chunk_length then Inl ValueError
               else read_chunks (drop (8 + chunk_length) rest) (pos + 8 + chunk_length)
                      length' (buffers @ [chunk_data])))))"
  by pat_completeness auto
termination
  by (relation "measure (\<lambda>(rest, pos, length', buffers). length rest)") auto

declare read_chunks.simps [simp del]

definition load_glb :: "env \<Rightarrow> kwargs \<Rightarrow> bytes \<Rightarrow> (error + result) option" where
  "load_glb E mesh_kwargs data =
     (case read_head data of
        Inl e \<Rightarrow> Some (Inl e)
      | Inr (length', chunk_length) \<Rightarrow>
          (let json_data = take chunk_length (drop 20 data) in
           case loads E json_data of
             None \<Rightarrow> Some (Inl ValueError)
           | Some header \<Rightarrow>
               (case read_chunks (drop (20 + length json_data) data) (20 + length json_data)
                       length' [] of
                  Inl e \<Rightarrow> Some (Inl e)
                | Inr buffers \<Rightarrow> read_buffers E header buffers mesh_kwargs)))"

section \<open>A small scene and stand-ins for the collaborators\<close>

text \<open>
  A concrete environment and scene on which the theorems below are instantiated:
  one coloured triangle named \<^verbatim>\<open>tri\<close> below a root node named \<^verbatim>\<open>world\<close>, as
  \<^verbatim>\<open>to_gltf\<close> lays a scene out. The float conversions of \<open>test_env\<close> are stand-ins
  (the theorems hold for any), and its \<open>loads\<close> decodes nothing.
\<close>

definition test_env :: env where
  "test_env =
     \<lparr>dumps = (\<lambda>_. ''{}''),
      loads = (\<lambda>_. None),
      astype_float32 = (\<lambda>w. ucast (drop_bit 32 w)),
      amax = (\<lambda>xs. fold max xs 0),
      amin = (\<lambda>xs. fold min xs (- 1)),
      unit_color = ucast,
      float_as_int = (\<lambda>_. None),
      py_str = (\<lambda>_. ''None''),
      unique_id = (\<lambda>n increment. take n (decimal (100000 + increment))),
      upper = (\<lambda>t. t),
      random_frame = ''1234567890'',
      pil_open = None,
      flip_v = (\<lambda>_ x. x),
      np_array_f64 = (\<lambda>v. case v of JArr xs \<Rightarrow>
                          Inr (map (\<lambda>x. case x of JFloat f \<Rightarrow> f | _ \<Rightarrow> 0) xs)
                        | _ \<Rightarrow> Inl TypeError)\<rparr>"

definition example_mesh :: trimesh where
  "example_mesh =
     \<lparr>vertices = [(0, 0, 0), (0x3FF0000000000000, 0, 0), (0, 0x3FF0000000000000, 0)],
      faces = [(0, 1, 2)],
      units = None,
      visual = ColorVisuals \<lparr>kind = Some ''vertex'',
                 vertex_colors = [(255, 0, 0, 255), (0, 255, 0, 255), (0, 0, 255, 255)]\<rparr>,
      main_color = [255, 0, 0, 255],
      vertex_normals = [(0, 0, 0x3FF0000000000000), (0, 0, 0x3FF0000000000000),
                        (0, 0, 0x3FF0000000000000)]\<rparr>"

definition example_nodes :: "json list" where
  "example_nodes =
     [JObj [(''name'', JStr ''world''), (''children'', JArr [JInt 1])],
      JObj [(''name'', JStr ''tri_0''), (''mesh'', JInt 0)]]"

definition example_path :: path where
  "example_path =
     \<lparr>path_vertices = [[0, 0], [0x3FF0000000000000, 0]],
      path_units = None,
      vxlist_count = 2,
      vxlist_data = [0, 0, 0, 0x3FF0000000000000, 0, 0]\<rparr>"

definition example_scene :: scene where
  "example_scene =
     \<lparr>geometry = [(''tri'', Trimesh example_mesh)],
      graph_to_gltf = (\<lambda>mesh_index. example_nodes)\<rparr>"

text \<open>The coloured triangle together with a path, and the coloured triangle twice.\<close>

definition mesh_and_path_scene :: scene where
  "mesh_and_path_scene =
     \<lparr>geometry = [(''tri'', Trimesh example_mesh), (''line'', Path example_path)],
      graph_to_gltf = (\<lambda>mesh_index. example_nodes)\<rparr>"

definition two_mesh_scene :: scene where
  "two_mesh_scene =
     \<lparr>geometry = [(''a'', Trimesh example_mesh), (''b'', Trimesh example_mesh)],
      graph_to_gltf = (\<lambda>mesh_index. example_nodes)\<rparr>"

text \<open>Whether a geometry makes the builder append a material: a mesh without colour
  (the material derived from its main colour) and every path (the default material).\<close>

fun produces_material :: "geometry \<Rightarrow> bool" where
  "produces_material (Trimesh mesh) = (kind (mesh_visual mesh) = None)"
| "produces_material (Path p) = True"
| "produces_material OtherGeometry = False"

text \<open>The \<^verbatim>\<open>materials\<close> entry of the tree the builder returns, and the \<^verbatim>\<open>material\<close>
  entry of the first primitive of a mesh record.\<close>

definition materials_entry :: "error + ((string \<times> json) list \<times> bytes list) \<Rightarrow> json option" where
  "materials_entry r = (case r of Inl e \<Rightarrow> None | Inr (tr, bis) \<Rightarrow> map_of tr ''materials'')"

definition primitive_material :: "json \<Rightarrow> json option" where
  "primitive_material m =
     (case m of
        JObj kvs \<Rightarrow>
          (case map_of kvs ''primitives'' of
             Some (JArr (JObj p # _)) \<Rightarrow> map_of p ''material''
           | _ \<Rightarrow> None)
      | _ \<Rightarrow> None)"

text \<open>The triangle without colour.\<close>

definition plain_mesh :: trimesh where
  "plain_mesh = example_mesh\<lparr>visual := ColorVisuals \<lparr>kind = None, vertex_colors = []\<rparr>\<rparr>"

text \<open>The bytes stored under a file name by \<^verbatim>\<open>export_gltf\<close>.\<close>

definition file_entry :: "error + (string \<times> bytes) list \<Rightarrow> string \<Rightarrow> bytes option" where
  "file_entry r name = (case r of Inl e \<Rightarrow> None | Inr files \<Rightarrow> map_of files name)"

text \<open>The \<^verbatim>\<open><u4\<close> word at a byte offset of a file.\<close>

definition u32_at :: "bytes \<Rightarrow> nat \<Rightarrow> nat" where
  "u32_at b off = le_decode (take 4 (drop off b))"

text \<open>What the GLB header has to say about lengths: the total length at offset 8, the
  length of the JSON chunk at offset 12, the length of the binary chunk in front of it.\<close>

definition glb_length_fields_ok :: "error + (bytes \<times> bytes \<times> bytes \<times> bytes) \<Rightarrow> bool" where
  "glb_length_fields_ok r =
     (case r of
        Inl e \<Rightarrow> True
      | Inr (header, content, bin_header, buffer_data) \<Rightarrow>
          (let exported = header @ content @ bin_header @ buffer_data in
           u32_at exported 8 = 28 + length content + length buffer_data \<and>
           u32_at exported 12 = length content \<and>
           u32_at exported (20 + length content) = length buffer_data))"

text \<open>A scene whose index buffer alone, \<open>12 * 357913942\<close> bytes, is longer than
  \<open>2 ^ 32\<close> bytes.\<close>

definition huge_faces :: "(int \<times> int \<times> int) list" where
  "huge_faces = replicate 357913942 (0, 0, 0)"

definition huge_scene :: scene where
  "huge_scene =
     \<lparr>geometry = [(''huge'', Trimesh (example_mesh\<lparr>faces := huge_faces\<rparr>))],
      graph_to_gltf = (\<lambda>mesh_index. example_nodes)\<rparr>"

text \<open>The first 22 bytes of a GLB file: the header announcing 100 bytes in all, and a
  JSON chunk of 2 bytes holding \<^verbatim>\<open>{}\<close>.\<close>

definition glb_head_bytes :: bytes where
  "glb_head_bytes =
     [0x67, 0x6C, 0x54, 0x46,  2, 0, 0, 0,  100, 0, 0, 0,  2, 0, 0, 0,  0x4A, 0x53, 0x4F, 0x4E,
      0x7B, 0x7D]"

text \<open>An index accessor over the first buffer view, with a given count, and the bytes
  of the three indexes 0, 1, 2.\<close>

definition index_accessor :: "int \<Rightarrow> json" where
  "index_accessor n =
     JObj [(''bufferView'', JInt 0), (''componentType'', JInt 5125),
           (''count'', JInt n), (''type'', JStr ''SCALAR'')]"

definition index_bytes :: bytes where
  "index_bytes = [0, 0, 0, 0,  1, 0, 0, 0,  2, 0, 0, 0]"

text \<open>A document with a single root node that is named \<^verbatim>\<open>world\<close>, and no geometry.\<close>

definition world_header :: json where
  "world_header =
     JObj [(''scene'', JInt 0),
           (''scenes'', JArr [JObj [(''nodes'', JArr [JInt 0])]]),
           (''nodes'', JArr [JObj [(''name'', JStr ''world'')]]),
           (''bufferViews'', JArr []),
           (''accessors'', JArr []),
           (''meshes'', JArr [])]"

text \<open>A node list in which node 1, below the root, has a matrix and references mesh 0;
  the names of its nodes; and a mesh 0 with two primitives.\<close>

definition instanced_nodes :: json where
  "instanced_nodes =
     JArr [JObj [(''name'', JStr ''world''), (''children'', JArr [JInt 1])],
           JObj [(''name'', JStr ''part''), (''mesh'', JInt 0),
                 (''matrix'', JArr (map JFloat [1, 2, 3, 4, 5, 6, 7, 8, 9, 10, 11, 12, 13, 14, 15, 16]))]]"

definition instanced_names :: "(key \<times> json) list" where
  "instanced_names =
     [(IntKey 0, JStr ''world''), (IntKey 1, JStr ''part''), (StrKey ''world'', JStr ''world'')]"

definition instanced_prims :: "nat \<Rightarrow> json list" where
  "instanced_prims i = (if i = 0 then [JStr ''part_0'', JStr ''part_1''] else [])"

text \<open>An accessor with every field given: its type, component type, byte offset and
  count, over the first buffer view. A view of four leading bytes followed by the two
  float32 positions \<open>(0, 0, 0)\<close> and \<open>(1, 0, 0)\<close>.\<close>

definition accessor_of :: "string \<Rightarrow> int \<Rightarrow> int \<Rightarrow> int \<Rightarrow> json" where
  "accessor_of ty ct offset n =
     JObj [(''bufferView'', JInt 0), (''byteOffset'', JInt offset), (''componentType'', JInt ct),
           (''count'', JInt n), (''type'', JStr ty)]"

definition position_bytes :: bytes where
  "position_bytes =
     [9, 9, 9, 9,
      0, 0, 0, 0,  0, 0, 0, 0,  0, 0, 0, 0,
      0, 0, 0x80, 0x3F,  0, 0, 0, 0,  0, 0, 0, 0]"















section \<open>Basic facts: bytes and padding\<close>

lemma recompose4:
  fixes n :: nat
  assumes "n < 4294967296"
  shows "n mod 256 + (256 * (n div 256 mod 256) + (65536 * (n div 65536 mod 256) + 16777216 * (n div 16777216))) = n"
proof -
  define a where "a = n div 256"
  define b where "b = a div 256"
  define c where "c = b div 256"
  have n: "n = n mod 256 + 256 * a" by (simp add: a_def)
  have a: "a = a mod 256 + 256 * b" by (simp add: b_def)
  have b: "b = b mod 256 + 256 * c" by (simp add: c_def)
  have d2: "n div 65536 = b" by (simp add: a_def b_def div_mult2_eq [symmetric])
  have d3: "n div 16777216 = c" by (simp add: a_def b_def c_def div_mult2_eq [symmetric])
  have "n mod 256 + (256 * (a mod 256) + (65536 * (b mod 256) + 16777216 * c))
      = n mod 256 + 256 * (a mod 256 + 256 * (b mod 256 + 256 * c))" by simp
  also have "\<dots> = n" using n a b by simp
  finally show ?thesis unfolding d2 d3 a_def [symmetric] .
qed

lemma pad_len_int: "r = length data mod 4 \<Longrightarrow> int (length data + (4 - r)) mod 4 = 0"
  by presburger

lemma byte_pad4:
  "byte_pad data 4 = Inr (data @ replicate ((4 - length data mod 4) mod 4) 0)"
proof -
  define r where "r = length data mod 4"
  have r: "int (length data) mod 4 = int r" by (simp add: r_def zmod_int)
  have r4: "r < 4" by (simp add: r_def)
  have l: "int (length data + (4 - r)) mod 4 = 0"
    by (rule pad_len_int) (simp add: r_def)
  show ?thesis
  proof (cases "r = 0")
    case True
    then show ?thesis unfolding byte_pad_def r r_def [symmetric] by simp
  next
    case False
    then have m: "(4 - r) mod 4 = 4 - r" using r4 by simp
    have n: "nat (4 - int r) = 4 - r" by simp
    have neg: "\<not> 4 - int r < 0" using r4 by simp
    have len: "int (length (data @ replicate (4 - r) (0::byte))) mod 4 = 0"
      using l by simp
    show ?thesis unfolding byte_pad_def r Let_def n r_def [symmetric] m 
      using False neg len by (simp only: if_False if_True of_nat_eq_0_iff simp_thms) simp
  qed
qed

lemma byte_pad4_length: "byte_pad data 4 = Inr padded \<Longrightarrow> length padded mod 4 = 0"
  unfolding byte_pad4 by (auto simp: mod_simps) presburger

lemma byte_pad4_aligned: "length data mod 4 = 0 \<Longrightarrow> byte_pad data 4 = Inr data"
  by (simp add: byte_pad4)

lemma length_u32_bytes [simp]: "length (u32_bytes w) = 4"
  by (simp add: u32_bytes_def Let_def)

lemma length_tobytes [simp]: "length (tobytes ws) = 4 * length ws"
  by (induction ws) (simp_all add: tobytes_def)

lemma length_flat3 [simp]: "length (flat3 xs) = 3 * length xs"
  by (induction xs) (auto simp: flat3_def)

lemma length_flat4 [simp]: "length (flat4 xs) = 4 * length xs"
  by (induction xs) (auto simp: flat4_def)

lemma le_decode_u32: "le_decode (u32_bytes w) = unat w"
proof -
  have "unat w < 4294967296" using unsigned_less [of w] by simp
  then show ?thesis
    by (simp add: u32_bytes_def Let_def unat_of_nat recompose4)
qed

lemma byte_pad_tobytes [simp]: "byte_pad (tobytes ws) 4 = Inr (tobytes ws)"
  by (simp add: byte_pad4_aligned)

lemma byte_pad_flat4 [simp]: "byte_pad (flat4 cs) 4 = Inr (flat4 cs)"
  by (simp add: byte_pad4_aligned)

section \<open>The buffer items of the structure builder\<close>

lemma append_mesh_items:
  assumes "append_mesh E mesh name tr bis incl = Inr (tr', bis')"
  shows "\<exists>new. bis' = bis @ new \<and> (\<forall>c\<in>set new. length c mod 4 = 0)"
  using assms
  by (auto simp: append_mesh_def ebind_def Let_def column_bounds_def
      split: if_splits sum.splits prod.splits)

lemma append_path_items:
  assumes "append_path E p name tr bis = Inr (tr', bis')"
  shows "\<exists>new. bis' = bis @ new \<and> (\<forall>c\<in>set new. length c mod 4 = 0)"
  using assms
  by (auto simp: append_path_def ebind_def Let_def row_bounds_def
      split: if_splits sum.splits prod.splits)

lemma append_geometries_aligned:
  assumes "append_geometries E incl gs tr bis = Inr (tr', bis')"
    and "\<forall>c\<in>set bis. length c mod 4 = 0"
  shows "\<forall>c\<in>set bis'. length c mod 4 = 0"
  using assms
proof (induction gs arbitrary: tr bis)
  case Nil
  then show ?case by simp
next
  case (Cons ng gs)
  obtain name g where ng: "ng = (name, g)" by (cases ng)
  show ?case
  proof (cases g)
    case (Trimesh mesh)
    with Cons.prems(1) ng obtain tr1 bis1 where
      s: "append_mesh E mesh name tr bis incl = Inr (tr1, bis1)"
      and r: "append_geometries E incl gs tr1 bis1 = Inr (tr', bis')"
      by (auto simp: ebind_def split: sum.splits)
    from append_mesh_items [OF s] Cons.prems(2)
    have "\<forall>c\<in>set bis1. length c mod 4 = 0" by auto
    with Cons.IH [OF r] show ?thesis by blast
  next
    case (Path p)
    with Cons.prems(1) ng obtain tr1 bis1 where
      s: "append_path E p name tr bis = Inr (tr1, bis1)"
      and r: "append_geometries E incl gs tr1 bis1 = Inr (tr', bis')"
      by (auto simp: ebind_def split: sum.splits)
    from append_path_items [OF s] Cons.prems(2)
    have "\<forall>c\<in>set bis1. length c mod 4 = 0" by auto
    with Cons.IH [OF r] show ?thesis by blast
  next
    case OtherGeometry
    with Cons ng show ?thesis by simp
  qed
qed

lemma example_structure:
  "\<exists>tr bis. create_gltf_structure test_env example_scene False = Inr (tr, bis) \<and> bis \<noteq> []"
  by (simp add: create_gltf_structure_def example_scene_def example_mesh_def append_mesh_def
      ebind_def Let_def column_bounds_def units_extras_def mesh_visual_def)

text \<open>
  Claim C8. For every byte string, \<^verbatim>\<open>_byte_pad\<close> with the bound 4 returns bytes whose
  length is a multiple of 4; and every chunk of the buffer-item list that
  \<^verbatim>\<open>_create_gltf_structure\<close> returns (index, position, colour, normal and path-vertex
  chunks) has a length that is a multiple of 4.
\<close>

theorem byte_pad_alignment:
  "(\<exists>padded. byte_pad data 4 = Inr padded \<and> length padded mod 4 = 0) \<and>
   (\<forall>tr bis. create_gltf_structure E sc include_normals = Inr (tr, bis) \<longrightarrow>
      (\<forall>chunk\<in>set bis. length chunk mod 4 = 0))"
proof (intro conjI allI impI)
  show "\<exists>padded. byte_pad data 4 = Inr padded \<and> length padded mod 4 = 0"
    using byte_pad4_length [of data] byte_pad4 [of data] by blast
next
  fix tr bis
  assume "create_gltf_structure E sc include_normals = Inr (tr, bis)"
  then obtain t where
    "append_geometries E include_normals (geometry sc)
       \<lparr>tree_accessors = [], tree_meshes = [], tree_materials = []\<rparr> [] = Inr (t, bis)"
    by (auto simp: create_gltf_structure_def ebind_def Let_def split: sum.splits)
  from append_geometries_aligned [OF this]
  show "\<forall>chunk\<in>set bis. length chunk mod 4 = 0" by simp
qed

theorem byte_pad_alignment_witness:
  "\<exists>padded tr bis. byte_pad [1, 2, 3, 4, 5] 4 = Inr padded \<and> length padded mod 4 = 0 \<and>
     create_gltf_structure test_env example_scene False = Inr (tr, bis) \<and> bis \<noteq> [] \<and>
     length (hd bis) mod 4 = 0"
proof -
  obtain tr bis where s: "create_gltf_structure test_env example_scene False = Inr (tr, bis)"
    and ne: "bis \<noteq> []"
    using example_structure by blast
  note c8 = byte_pad_alignment [of "[1, 2, 3, 4, 5]" test_env example_scene False]
  from c8 [THEN conjunct1] obtain padded where p: "byte_pad [1, 2, 3, 4, 5] 4 = Inr padded"
    "length padded mod 4 = 0" by (elim exE conjE)
  from c8 [THEN conjunct2, rule_format, OF s]
  have "\<forall>chunk\<in>set bis. length chunk mod 4 = 0" by (intro ballI)
  with ne have "length (hd bis) mod 4 = 0" by simp
  with p s ne show ?thesis by (intro exI conjI)
qed

section \<open>Materials of the exported tree\<close>

lemma append_mesh_materials:
  assumes "append_mesh E mesh name tr bis incl = Inr (tr', bis')"
  shows "tree_materials tr' =
           tree_materials tr @ (if kind (mesh_visual mesh) = None then [mesh_to_material E mesh] else [])"
  using assms
  by (auto simp: append_mesh_def ebind_def Let_def column_bounds_def
      split: if_splits sum.splits prod.splits)

lemma append_path_materials:
  assumes "append_path E p name tr bis = Inr (tr', bis')"
  shows "tree_materials tr' = tree_materials tr @ [default_material]"
  using assms
  by (auto simp: append_path_def ebind_def Let_def row_bounds_def
      split: if_splits sum.splits prod.splits)

lemma append_geometries_materials:
  assumes "append_geometries E incl gs tr bis = Inr (tr', bis')"
  shows "(tree_materials tr' = []) =
           (tree_materials tr = [] \<and> (\<forall>g\<in>set (map snd gs). \<not> produces_material g))"
  using assms
proof (induction gs arbitrary: tr bis)
  case Nil
  then show ?case by simp
next
  case (Cons ng gs)
  obtain name g where ng: "ng = (name, g)" by (cases ng)
  show ?case
  proof (cases g)
    case (Trimesh mesh)
    with Cons.prems(1) ng obtain tr1 bis1 where
      s: "append_mesh E mesh name tr bis incl = Inr (tr1, bis1)"
      and r: "append_geometries E incl gs tr1 bis1 = Inr (tr', bis')"
      by (auto simp: ebind_def split: sum.splits)
    show ?thesis
      using Cons.IH [OF r] append_mesh_materials [OF s] ng Trimesh by auto
  next
    case (Path p)
    with Cons.prems(1) ng obtain tr1 bis1 where
      s: "append_path E p name tr bis = Inr (tr1, bis1)"
      and r: "append_geometries E incl gs tr1 bis1 = Inr (tr', bis')"
      by (auto simp: ebind_def split: sum.splits)
    show ?thesis
      using Cons.IH [OF r] append_path_materials [OF s] ng Path by auto
  next
    case OtherGeometry
    with Cons ng show ?thesis by simp
  qed
qed

lemma create_gltf_structure_materials:
  assumes "create_gltf_structure E sc incl = Inr (tr, bis)"
  shows "(map_of tr ''materials'' = None) = (\<forall>g\<in>set (map snd (geometry sc)). \<not> produces_material g)"
proof -
  from assms obtain t where
    a: "append_geometries E incl (geometry sc)
       \<lparr>tree_accessors = [], tree_meshes = [], tree_materials = []\<rparr> [] = Inr (t, bis)"
    and tr: "tr = [(''scene'', JInt 0),
                 (''scenes'', JArr [JObj [(''nodes'', JArr [JInt 0])]]),
                 (''asset'', JObj [(''version'', JStr ''2.0''),
                                  (''generator'', JStr ''github.com/mikedh/trimesh'')]),
                 (''accessors'', JArr (tree_accessors t)),
                 (''meshes'', JArr (tree_meshes t))]
                @ (if length (tree_materials t) = 0 then []
                   else [(''materials'', JArr (tree_materials t))])
                @ [(''nodes'', JArr (graph_to_gltf sc (zip (map fst (geometry sc)) [0 ..< length (map fst (geometry sc))])))]"
    by (auto simp: create_gltf_structure_def ebind_def Let_def split: sum.splits)
  have "(map_of tr ''materials'' = None) = (tree_materials t = [])"
    unfolding tr by simp
  with append_geometries_materials [OF a] show ?thesis by simp
qed

lemma append_mesh_primitive_material:
  assumes "append_mesh E mesh name tr bis incl = Inr (tr', bis')"
  shows "primitive_material (last (tree_meshes tr')) =
           (if kind (mesh_visual mesh) = None then Some (JInt (int (length (tree_materials tr)))) else None)"
  using assms
  by (auto simp: append_mesh_def ebind_def Let_def column_bounds_def primitive_material_def
      split: if_splits sum.splits prod.splits)

lemma plain_mesh_appended:
  "\<exists>tr' bis'. append_mesh test_env plain_mesh ''m''
      \<lparr>tree_accessors = [], tree_meshes = [], tree_materials = []\<rparr> [] False = Inr (tr', bis')"
  by (simp add: plain_mesh_def example_mesh_def append_mesh_def
      ebind_def Let_def column_bounds_def units_extras_def mesh_visual_def)

text \<open>
  Claim C7, as the claim states it, fails where a scene holds a path: every triangle
  mesh of \<open>mesh_and_path_scene\<close> carries per-vertex colour, and the exported tree has the
  key \<^verbatim>\<open>materials\<close>, holding the default material of the path.
\<close>

theorem mesh_and_path_materials:
  "kind (mesh_visual example_mesh) = Some ''vertex'' \<and>
   materials_entry (create_gltf_structure test_env mesh_and_path_scene False)
     = Some (JArr [default_material])"
  by (simp add: materials_entry_def create_gltf_structure_def mesh_and_path_scene_def
      example_mesh_def example_path_def append_mesh_def append_path_def row_bounds_def
      ebind_def Let_def column_bounds_def units_extras_def mesh_visual_def)

text \<open>
  Claim C7, amended. The exported tree has no \<^verbatim>\<open>materials\<close> key exactly when no
  geometry of the scene produces a material, that is when every triangle mesh carries
  per-vertex colour and the scene holds no path. A mesh without vertex colour gets the
  material derived from it appended to \<^verbatim>\<open>materials\<close>, and its primitive references that
  material by its index.
\<close>

theorem materials_key_absent_iff:
  "(\<forall>tr bis. create_gltf_structure E sc incl = Inr (tr, bis) \<longrightarrow>
      (map_of tr ''materials'' = None) =
      (\<forall>g\<in>set (map snd (geometry sc)). \<not> produces_material g)) \<and>
   (\<forall>tr' bis'. append_mesh E mesh name tr0 bis0 incl = Inr (tr', bis') \<longrightarrow>
      kind (mesh_visual mesh) = None \<longrightarrow>
      tree_materials tr' = tree_materials tr0 @ [mesh_to_material E mesh] \<and>
      primitive_material (last (tree_meshes tr')) =
        Some (JInt (int (length (tree_materials tr0)))))"
proof (intro conjI allI impI)
  fix tr bis
  assume "create_gltf_structure E sc incl = Inr (tr, bis)"
  then show "(map_of tr ''materials'' = None) =
      (\<forall>g\<in>set (map snd (geometry sc)). \<not> produces_material g)"
    by (rule create_gltf_structure_materials)
next
  fix tr' bis'
  assume a: "append_mesh E mesh name tr0 bis0 incl = Inr (tr', bis')"
    and k: "kind (mesh_visual mesh) = None"
  show "tree_materials tr' = tree_materials tr0 @ [mesh_to_material E mesh]"
    using append_mesh_materials [OF a] k by simp
  show "primitive_material (last (tree_meshes tr')) =
        Some (JInt (int (length (tree_materials tr0))))"
    using append_mesh_primitive_material [OF a] k by simp
qed

theorem materials_key_absent_iff_witness:
  "(\<exists>tr bis. create_gltf_structure test_env example_scene False = Inr (tr, bis) \<and>
      map_of tr ''materials'' = None) \<and>
   (\<exists>tr' bis'. append_mesh test_env plain_mesh ''m''
        \<lparr>tree_accessors = [], tree_meshes = [], tree_materials = []\<rparr> [] False
        = Inr (tr', bis') \<and>
      tree_materials tr' = [mesh_to_material test_env plain_mesh] \<and>
      primitive_material (last (tree_meshes tr')) = Some (JInt 0))"
proof -
  note c7 = materials_key_absent_iff [of test_env example_scene False plain_mesh "''m''"
      "\<lparr>tree_accessors = [], tree_meshes = [], tree_materials = []\<rparr>" "[]"]
  obtain tr bis where s: "create_gltf_structure test_env example_scene False = Inr (tr, bis)"
    using example_structure by blast
  have col: "\<forall>g\<in>set (map snd (geometry example_scene)). \<not> produces_material g"
    by (simp add: example_scene_def example_mesh_def mesh_visual_def)
  from c7 [THEN conjunct1, rule_format, OF s] col
  have m: "map_of tr ''materials'' = None" by simp
  obtain tr' bis' where a: "append_mesh test_env plain_mesh ''m''
        \<lparr>tree_accessors = [], tree_meshes = [], tree_materials = []\<rparr> [] False
        = Inr (tr', bis')"
    using plain_mesh_appended by blast
  have k: "kind (mesh_visual plain_mesh) = None"
    by (simp add: plain_mesh_def mesh_visual_def)
  from c7 [THEN conjunct2, rule_format, OF a k]
  have "tree_materials tr' = [mesh_to_material test_env plain_mesh]"
    and "primitive_material (last (tree_meshes tr')) = Some (JInt 0)" by simp_all
  with s m a show ?thesis by blast
qed

section \<open>The GLTF directory\<close>

lemma upt3: "[0 ..< 3] = [0, 1, 2]"
  by (simp add: upt_rec)

lemma two_mesh_items:
  "\<exists>tr. create_gltf_structure test_env two_mesh_scene False =
     Inr (tr, [tobytes (astype_uint32 (flat3 (faces example_mesh))),
               tobytes (map (astype_float32 test_env) (flat3 (vertices example_mesh))),
               flat4 (vertex_colors (mesh_visual example_mesh)),
               tobytes (astype_uint32 (flat3 (faces example_mesh))),
               tobytes (map (astype_float32 test_env) (flat3 (vertices example_mesh))),
               flat4 (vertex_colors (mesh_visual example_mesh))])"
  by (simp add: create_gltf_structure_def two_mesh_scene_def append_mesh_def
      ebind_def Let_def column_bounds_def units_extras_def mesh_visual_def example_mesh_def)

lemma export_gltf_two_meshes_b:
  "file_entry (export_gltf test_env two_mesh_scene) ''mesh_b.bin'' =
     Some (flat4 (vertex_colors (mesh_visual example_mesh)) @
           tobytes (astype_uint32 (flat3 (faces example_mesh))))"
proof -
  obtain tr where s: "create_gltf_structure test_env two_mesh_scene False =
     Inr (tr, [tobytes (astype_uint32 (flat3 (faces example_mesh))),
               tobytes (map (astype_float32 test_env) (flat3 (vertices example_mesh))),
               flat4 (vertex_colors (mesh_visual example_mesh)),
               tobytes (astype_uint32 (flat3 (faces example_mesh))),
               tobytes (map (astype_float32 test_env) (flat3 (vertices example_mesh))),
               flat4 (vertex_colors (mesh_visual example_mesh))])"
    using two_mesh_items by blast
  have g: "map fst (geometry two_mesh_scene) = [''a'', ''b'']"
    by (simp add: two_mesh_scene_def)
  show ?thesis
    by (simp add: export_gltf_def s g ebind_def Let_def upt3 file_entry_def)
qed

text \<open>
  Claim C6 at a scene of two coloured meshes \<^verbatim>\<open>a\<close> and \<^verbatim>\<open>b\<close>. Each mesh contributes
  three buffer items (index, position, colour), while \<^verbatim>\<open>export_gltf\<close> gives every
  geometry the next two items: the file \<^verbatim>\<open>mesh_b.bin\<close> holds the colour chunk of \<^verbatim>\<open>a\<close>
  followed by the index chunk of \<^verbatim>\<open>b\<close>, which is not the index chunk of \<^verbatim>\<open>b\<close> followed by
  its vertex chunk.
\<close>

theorem export_gltf_two_coloured_meshes:
  "file_entry (export_gltf test_env two_mesh_scene) ''mesh_b.bin'' =
     Some (flat4 (vertex_colors (mesh_visual example_mesh)) @
           tobytes (astype_uint32 (flat3 (faces example_mesh)))) \<and>
   file_entry (export_gltf test_env two_mesh_scene) ''mesh_b.bin'' \<noteq>
     Some (tobytes (astype_uint32 (flat3 (faces example_mesh))) @
           tobytes (map (astype_float32 test_env) (flat3 (vertices example_mesh))))"
proof -
  have l1: "length (flat4 (vertex_colors (mesh_visual example_mesh)) @
           tobytes (astype_uint32 (flat3 (faces example_mesh)))) = 24"
    by (simp add: example_mesh_def mesh_visual_def astype_uint32_def)
  have l2: "length (tobytes (astype_uint32 (flat3 (faces example_mesh))) @
           tobytes (map (astype_float32 test_env) (flat3 (vertices example_mesh)))) = 48"
    by (simp add: example_mesh_def astype_uint32_def)
  have "flat4 (vertex_colors (mesh_visual example_mesh)) @
           tobytes (astype_uint32 (flat3 (faces example_mesh))) \<noteq>
        tobytes (astype_uint32 (flat3 (faces example_mesh))) @
           tobytes (map (astype_float32 test_env) (flat3 (vertices example_mesh)))"
  proof
    assume "flat4 (vertex_colors (mesh_visual example_mesh)) @
           tobytes (astype_uint32 (flat3 (faces example_mesh))) =
        tobytes (astype_uint32 (flat3 (faces example_mesh))) @
           tobytes (map (astype_float32 test_env) (flat3 (vertices example_mesh)))"
    with l1 have "length (tobytes (astype_uint32 (flat3 (faces example_mesh))) @
           tobytes (map (astype_float32 test_env) (flat3 (vertices example_mesh)))) = 24"
      by simp
    with l2 show False by simp
  qed
  then show ?thesis by (simp add: export_gltf_two_meshes_b)
qed

section \<open>The GLB header\<close>

lemma glb_parts_Inr:
  assumes "glb_parts E sc incl = Inr (header, content, bin_header, buffer_data)"
  shows "header = tobytes (astype_uint32 [magic_gltf, 2,
            int (length content) + int (length buffer_data) + 28, int (length content), 1313821514])"
    and "bin_header = tobytes (astype_uint32 [int (length buffer_data), 0x004E4942])"
    and "length content mod 4 = 0"
    and "\<exists>tr bis. create_gltf_structure E sc incl = Inr (tr, bis) \<and> buffer_data = concat bis \<and>
           content = encode_utf8 (pad_content (dumps E (JObj (glb_tree tr bis))))"
  using assms
  by (auto simp: glb_parts_def ebind_def Let_def split: sum.splits prod.splits if_splits)

lemma u32_at_0: "u32_at (u32_bytes a @ rest) 0 = unat a"
  by (simp add: u32_at_def le_decode_u32)

lemma u32_at_skip: "length pre = n \<Longrightarrow> u32_at (pre @ rest) (n + k) = u32_at rest k"
  by (simp add: u32_at_def)

lemma u32_at_skip0: "length pre = n \<Longrightarrow> u32_at (pre @ rest) n = u32_at rest 0"
  using u32_at_skip [of pre n rest 0] by simp

lemma tobytes_Cons: "tobytes (w # ws) = u32_bytes w @ tobytes ws"
  by (simp add: tobytes_def)

lemma tobytes_Nil: "tobytes [] = []"
  by (simp add: tobytes_def)

lemma header_fields:
  "u32_at (tobytes [a, b, c, d, e] @ rest) 0 = unat a"
  "u32_at (tobytes [a, b, c, d, e] @ rest) 4 = unat b"
  "u32_at (tobytes [a, b, c, d, e] @ rest) 8 = unat c"
  "u32_at (tobytes [a, b, c, d, e] @ rest) 12 = unat d"
  "u32_at (tobytes [a, b, c, d, e] @ rest) 16 = unat e"
  by (simp_all add: tobytes_Cons tobytes_Nil u32_at_def le_decode_u32)

lemma bin_header_fields:
  "u32_at (tobytes [a, b] @ rest) 0 = unat a"
  "u32_at (tobytes [a, b] @ rest) 4 = unat b"
  by (simp_all add: tobytes_Cons tobytes_Nil u32_at_def le_decode_u32)

lemma unat_u32_of_nat: "n < 4294967296 \<Longrightarrow> unat (word_of_int (int n) :: 32 word) = n"
  by (simp add: unat_of_nat)

lemma length_huge_faces: "length huge_faces = 357913942"
  by (simp add: huge_faces_def)

lemma huge_faces_nonempty: "huge_faces \<noteq> []"
  using length_huge_faces by fastforce

lemma huge_structure:
  "\<exists>tr rest. create_gltf_structure test_env huge_scene False =
     Inr (tr, tobytes (astype_uint32 (flat3 huge_faces)) # rest)"
  by (simp add: create_gltf_structure_def huge_scene_def append_mesh_def
      ebind_def Let_def column_bounds_def units_extras_def mesh_visual_def example_mesh_def
      huge_faces_nonempty)

lemma length_astype_uint32 [simp]: "length (astype_uint32 xs) = length xs"
  by (simp add: astype_uint32_def)

lemma length_encode_pad: "length (encode_utf8 (pad_content ''{}'')) = 4"
  by (simp add: encode_utf8_def pad_content_def utf8_char_def)

lemma huge_parts:
  "\<exists>header content bin_header buffer_data.
     glb_parts test_env huge_scene False = Inr (header, content, bin_header, buffer_data) \<and>
     4294967296 \<le> length buffer_data"
proof -
  from huge_structure obtain tr rest where s: "create_gltf_structure test_env huge_scene False =
     Inr (tr, tobytes (astype_uint32 (flat3 huge_faces)) # rest)"
    by (elim exE)
  have d: "dumps test_env = (\<lambda>_. ''{}'')" by (simp add: test_env_def)
  show ?thesis
    by (simp add: glb_parts_def s ebind_def Let_def d length_encode_pad length_huge_faces)
qed

lemma example_items:
  "\<exists>tr. create_gltf_structure test_env example_scene False =
     Inr (tr, [tobytes (astype_uint32 (flat3 (faces example_mesh))),
               tobytes (map (astype_float32 test_env) (flat3 (vertices example_mesh))),
               flat4 (vertex_colors (mesh_visual example_mesh))])"
  by (simp add: create_gltf_structure_def example_scene_def append_mesh_def
      ebind_def Let_def column_bounds_def units_extras_def mesh_visual_def example_mesh_def)

lemma example_parts:
  "\<exists>header content bin_header buffer_data.
     glb_parts test_env example_scene False = Inr (header, content, bin_header, buffer_data) \<and>
     28 + length content + length buffer_data < 4294967296"
proof -
  from example_items obtain tr where s: "create_gltf_structure test_env example_scene False =
     Inr (tr, [tobytes (astype_uint32 (flat3 (faces example_mesh))),
               tobytes (map (astype_float32 test_env) (flat3 (vertices example_mesh))),
               flat4 (vertex_colors (mesh_visual example_mesh))])"
    by (elim exE)
  have d: "dumps test_env = (\<lambda>_. ''{}'')" by (simp add: test_env_def)
  show ?thesis
    by (simp add: glb_parts_def s ebind_def Let_def d length_encode_pad example_mesh_def
        mesh_visual_def)
qed

text \<open>
  Claim C2, as the claim states it, fails at a scene whose GLB is not shorter than
  \<open>2 ^ 32\<close> bytes: the header words are stored as 32-bit words, so the total-length field
  of \<open>huge_scene\<close> is below \<open>2 ^ 32\<close> while the binary payload alone is not.
\<close>

theorem huge_scene_length_field:
  "\<not> isl (glb_parts test_env huge_scene False) \<and>
   \<not> glb_length_fields_ok (glb_parts test_env huge_scene False)"
proof -
  obtain header content bin_header buffer_data where
    p: "glb_parts test_env huge_scene False = Inr (header, content, bin_header, buffer_data)"
    and big: "4294967296 \<le> length buffer_data"
    using huge_parts by (elim exE conjE)
  define w :: "32 word" where
    "w = word_of_int (int (length content) + int (length buffer_data) + 28)"
  have h: "header = tobytes [word_of_int magic_gltf, 2, w, word_of_int (int (length content)), 1313821514]"
    using glb_parts_Inr(1) [OF p] by (simp add: astype_uint32_def w_def)
  have "u32_at (header @ content @ bin_header @ buffer_data) 8 = unat w"
    unfolding h by (rule header_fields)
  moreover have "unat w < 4294967296" using unsigned_less [of w] by simp
  ultimately have "u32_at (header @ content @ bin_header @ buffer_data) 8
      \<noteq> 28 + length content + length buffer_data"
    using big by linarith
  then show ?thesis by (simp add: p glb_length_fields_ok_def)
qed

text \<open>
  Claim C2, amended. For every scene whose GLB is shorter than \<open>2 ^ 32\<close> bytes, the bytes
  that \<^verbatim>\<open>export_glb\<close> returns are a 20-byte header, the padded JSON payload, an 8-byte
  chunk header and the binary payload; the word at offset 8 is 28 plus the lengths of
  the two payloads, the word at offset 12 is the length of the JSON payload (a multiple
  of 4), and the word in front of the binary payload is its length; the magic numbers,
  the version and the chunk types stand at their places.
\<close>

theorem glb_header_lengths:
  assumes "glb_parts E sc incl = Inr (header, content, bin_header, buffer_data)"
    and "28 + length content + length buffer_data < 4294967296"
  shows "export_glb E sc incl = Inr (header @ content @ bin_header @ buffer_data) \<and>
         length header = 20 \<and> length bin_header = 8 \<and> length content mod 4 = 0 \<and>
         u32_at (header @ content @ bin_header @ buffer_data) 0 = nat magic_gltf \<and>
         u32_at (header @ content @ bin_header @ buffer_data) 4 = 2 \<and>
         u32_at (header @ content @ bin_header @ buffer_data) 8
           = 28 + length content + length buffer_data \<and>
         u32_at (header @ content @ bin_header @ buffer_data) 12 = length content \<and>
         u32_at (header @ content @ bin_header @ buffer_data) 16 = nat magic_json \<and>
         u32_at (header @ content @ bin_header @ buffer_data) (20 + length content)
           = length buffer_data \<and>
         u32_at (header @ content @ bin_header @ buffer_data) (24 + length content)
           = nat magic_bin"
proof -
  note p = glb_parts_Inr [OF assms(1)]
  define total where "total = length content + length buffer_data + 28"
  have t: "int (length content) + int (length buffer_data) + 28 = int total"
    by (simp add: total_def)
  have tl: "total < 4294967296" and cl: "length content < 4294967296"
    and dl: "length buffer_data < 4294967296"
    using assms(2) by (simp_all add: total_def)
  have h: "header = tobytes [word_of_int magic_gltf, 2, word_of_int (int total),
             word_of_int (int (length content)), 1313821514]"
    using p(1) by (simp add: astype_uint32_def t)
  have b: "bin_header = tobytes [word_of_int (int (length buffer_data)), 0x004E4942]"
    using p(2) by (simp add: astype_uint32_def)
  have lh: "length header = 20" by (simp add: h)
  have lb: "length bin_header = 8" by (simp add: b)
  have e: "export_glb E sc incl = Inr (header @ content @ bin_header @ buffer_data)"
    by (simp add: export_glb_def assms(1) ebind_def)
  have f0: "u32_at (header @ content @ bin_header @ buffer_data) 0 = nat magic_gltf"
    unfolding h header_fields by (simp add: magic_gltf_def)
  have f4: "u32_at (header @ content @ bin_header @ buffer_data) 4 = 2"
    unfolding h header_fields by simp
  have f8: "u32_at (header @ content @ bin_header @ buffer_data) 8 = total"
    unfolding h header_fields by (rule unat_u32_of_nat [OF tl])
  have f12: "u32_at (header @ content @ bin_header @ buffer_data) 12 = length content"
    unfolding h header_fields by (rule unat_u32_of_nat [OF cl])
  have f16: "u32_at (header @ content @ bin_header @ buffer_data) 16 = nat magic_json"
    unfolding h header_fields by (simp add: magic_json_def)
  have skip: "\<And>k. u32_at (header @ content @ bin_header @ buffer_data) (20 + length content + k)
      = u32_at (bin_header @ buffer_data) k"
    using u32_at_skip [of "header @ content" "20 + length content" "bin_header @ buffer_data"] lh
    by simp
  have g0: "u32_at (header @ content @ bin_header @ buffer_data) (20 + length content)
      = length buffer_data"
  proof -
    have "u32_at (bin_header @ buffer_data) 0 = length buffer_data"
      unfolding b bin_header_fields by (rule unat_u32_of_nat [OF dl])
    with skip [of 0] show ?thesis by simp
  qed
  have g4: "u32_at (header @ content @ bin_header @ buffer_data) (24 + length content)
      = nat magic_bin"
  proof -
    have "u32_at (bin_header @ buffer_data) 4 = nat magic_bin"
      unfolding b bin_header_fields by (simp add: magic_bin_def)
    with skip [of 4] show ?thesis by (simp add: add.commute)
  qed
  show ?thesis
    using e lh lb p(3) f0 f4 f8 f12 f16 g0 g4 by (simp add: total_def)
qed

theorem glb_header_lengths_witness:
  "\<exists>header content bin_header buffer_data.
     glb_parts test_env example_scene False = Inr (header, content, bin_header, buffer_data) \<and>
     28 + length content + length buffer_data < 4294967296 \<and>
     export_glb test_env example_scene False = Inr (header @ content @ bin_header @ buffer_data) \<and>
     u32_at (header @ content @ bin_header @ buffer_data) 8
       = 28 + length content + length buffer_data \<and>
     u32_at (header @ content @ bin_header @ buffer_data) 12 = length content \<and>
     u32_at (header @ content @ bin_header @ buffer_data) (20 + length content)
       = length buffer_data"
proof -
  from example_parts obtain header content bin_header buffer_data where
    p: "glb_parts test_env example_scene False = Inr (header, content, bin_header, buffer_data)"
    and small: "28 + length content + length buffer_data < 4294967296"
    by (elim exE conjE)
  from glb_header_lengths [OF p small] p small show ?thesis
    by (intro exI [of _ header] exI [of _ content] exI [of _ bin_header]
        exI [of _ buffer_data]) simp
qed

section \<open>Reading the GLB container\<close>

lemma upt_small:
  "[0 ..< 1] = [0]" "[0 ..< 2] = [0, 1]" "[0 ..< 3] = [0, 1, 2]"
  "[0 ..< 4] = [0, 1, 2, 3]" "[0 ..< 5] = [0, 1, 2, 3, 4]"
  by (simp_all add: upt_rec)

lemma frombuffer_words:
  assumes "length h = 4 * n"
  shows "frombuffer h U4 = Inr \<lparr>dtype = U4, shape = [n], items = map (\<lambda>i. u32_at h (4 * i)) [0 ..< n]\<rparr>"
  using assms by (simp add: frombuffer_def u32_at_def mult.commute)

lemma u32_at_take20:
  "k + 4 \<le> 20 \<Longrightarrow> u32_at (take 20 data) k = u32_at data k"
  by (simp add: u32_at_def drop_take min_def)

lemma read_head_cases:
  "read_head data =
     (let n = length (take 20 data) div 4 in
      if length (take 20 data) mod 4 \<noteq> 0 then Inl ValueError
      else if n = 0 then Inl IndexError
      else if u32_at data 0 \<noteq> nat magic_gltf then Inl ValueError
      else if n < 2 then Inl IndexError
      else if u32_at data 4 \<noteq> 2 then Inl ValueError
      else if n < 5 then Inl ValueError
      else if u32_at data 16 \<noteq> nat magic_json then Inl ValueError
      else Inr (u32_at data 8, u32_at data 12))"
proof -
  define h where "h = take 20 data"
  define n where "n = length h div 4"
  have hl: "length h \<le> 20" by (simp add: h_def)
  have u: "u32_at h 0 = u32_at data 0" "u32_at h 4 = u32_at data 4" "u32_at h 8 = u32_at data 8"
    "u32_at h 12 = u32_at data 12" "u32_at h 16 = u32_at data 16"
    unfolding h_def by (simp_all add: u32_at_take20)
  have goal: "ebind (frombuffer h U4) (\<lambda>head_array.
     let head = items head_array in
     if head = [] then Inl IndexError
     else if int (head ! 0) \<noteq> magic_gltf then Inl ValueError
     else if length head < 2 then Inl IndexError
     else if head ! 1 \<noteq> 2 then Inl ValueError
     else
       (case drop 2 head of
          [length', chunk_length, chunk_type] \<Rightarrow>
            if int chunk_type \<noteq> magic_json then Inl ValueError
            else Inr (length', chunk_length)
        | _ \<Rightarrow> Inl ValueError)) =
     (if length h mod 4 \<noteq> 0 then Inl ValueError
      else if n = 0 then Inl IndexError
      else if u32_at h 0 \<noteq> nat magic_gltf then Inl ValueError
      else if n < 2 then Inl IndexError
      else if u32_at h 4 \<noteq> 2 then Inl ValueError
      else if n < 5 then Inl ValueError
      else if u32_at h 16 \<noteq> nat magic_json then Inl ValueError
      else Inr (u32_at h 8, u32_at h 12))"
  proof (cases "length h mod 4 = 0")
    case False
    then show ?thesis by (simp add: frombuffer_def ebind_def)
  next
    case True
    then have len: "length h = 4 * n" unfolding n_def by presburger
    note fb = frombuffer_words [OF len]
    have "n \<le> 5" using hl len by simp
    then consider "n = 0" | "n = 1" | "n = 2" | "n = 3" | "n = 4" | "n = 5" by linarith
    then show ?thesis
    proof cases
      case 1
      then show ?thesis using True by (simp add: fb ebind_def)
    next
      case 2
      then show ?thesis using True
        by (simp add: fb ebind_def upt_small magic_gltf_def nat_eq_iff)
    next
      case 3
      then show ?thesis using True
        by (simp add: fb ebind_def upt_small magic_gltf_def nat_eq_iff)
    next
      case 4
      then show ?thesis using True
        by (simp add: fb ebind_def upt_small magic_gltf_def nat_eq_iff)
    next
      case 5
      then show ?thesis using True
        by (simp add: fb ebind_def upt_small magic_gltf_def nat_eq_iff)
    next
      case 6
      then show ?thesis using True
        by (simp add: fb ebind_def upt_small magic_gltf_def magic_json_def nat_eq_iff)
    qed
  qed
  show ?thesis
    using goal unfolding read_head_def h_def [symmetric] Let_def n_def [symmetric] u .
qed

lemma read_head_bad_magic:
  assumes "4 \<le> length data" "u32_at data 0 \<noteq> nat magic_gltf"
  shows "read_head data = Inl ValueError"
proof -
  have "length (take 20 data) div 4 \<noteq> 0" using assms(1) by (simp add: min_def) presburger
  with assms(2) show ?thesis unfolding read_head_cases Let_def by simp
qed

lemma read_head_bad_version:
  assumes "8 \<le> length data" "u32_at data 4 \<noteq> 2"
  shows "read_head data = Inl ValueError"
proof -
  have "\<not> length (take 20 data) div 4 < 2" using assms(1) by (simp add: min_def) presburger
  moreover from this have "length (take 20 data) div 4 \<noteq> 0" by linarith
  ultimately show ?thesis using assms(2) unfolding read_head_cases Let_def by simp
qed

lemma read_head_bad_json:
  assumes "20 \<le> length data" "u32_at data 16 \<noteq> nat magic_json"
  shows "read_head data = Inl ValueError"
proof -
  have "length (take 20 data) div 4 = 5" using assms(1) by (simp add: min_def)
  with assms(2) show ?thesis unfolding read_head_cases Let_def by simp
qed

lemma load_glb_head_error: "read_head data = Inl e \<Longrightarrow> load_glb E kw data = Some (Inl e)"
  by (simp add: load_glb_def)

lemma chunk_words:
  "8 \<le> length rest \<Longrightarrow> le_decode (take 4 (take 8 rest)) = u32_at rest 0"
  "8 \<le> length rest \<Longrightarrow> le_decode (drop 4 (take 8 rest)) = u32_at rest 4"
  by (simp_all add: u32_at_def drop_take)

lemma read_chunks_bad_type:
  assumes "consumed < total_length" "8 \<le> length rest" "u32_at rest 4 \<noteq> nat magic_bin"
  shows "read_chunks rest consumed total_length buffers = Inl ValueError"
  using assms
  by (subst read_chunks.simps) (simp add: Let_def u32_at_def drop_take magic_bin_def nat_eq_iff min_def)

lemma read_chunks_truncated:
  assumes "consumed < total_length" "8 \<le> length rest" "length rest - 8 < u32_at rest 0"
  shows "read_chunks rest consumed total_length buffers = Inl ValueError"
  using assms
  by (subst read_chunks.simps) (simp add: Let_def u32_at_def drop_take min_def)

lemma read_chunks_short_head:
  assumes "length rest < 8"
  shows "read_chunks rest consumed total_length buffers = Inr buffers"
  using assms
  by (subst read_chunks.simps) (simp add: Let_def min_def)

lemma read_chunks_done:
  assumes "\<not> consumed < total_length"
  shows "read_chunks rest consumed total_length buffers = Inr buffers"
  using assms
  by (subst read_chunks.simps) simp

lemma read_chunks_good:
  assumes "consumed < total_length" "8 \<le> length rest" "u32_at rest 4 = nat magic_bin"
    "u32_at rest 0 \<le> length rest - 8"
  shows "read_chunks rest consumed total_length buffers =
           read_chunks (drop (8 + u32_at rest 0) rest) (consumed + 8 + u32_at rest 0) total_length
             (buffers @ [take (u32_at rest 0) (drop 8 rest)])"
  using assms
  by (subst read_chunks.simps) (simp add: Let_def u32_at_def drop_take magic_bin_def min_def)

lemma glb_head_bytes_head: "read_head (glb_head_bytes @ extra) = Inr (100, 2)"
  unfolding read_head_cases
  by (simp add: glb_head_bytes_def u32_at_def magic_gltf_def magic_json_def)

text \<open>
  Claim C3. The error the specification calls FormatError is the ValueError that
  \<^verbatim>\<open>load_glb\<close> raises. For every byte stream, \<^verbatim>\<open>load_glb\<close> raises it when the first
  word is not the glTF magic, when the version word is not 2, and when the type of the
  first chunk is not the JSON magic. In every state of the loop over the later chunks
  (with bytes still announced, \<open>consumed < total_length\<close>), a chunk header whose type is
  not the BIN magic raises it, and so does a chunk with fewer payload bytes left than
  its declared length; fewer than 8 bytes where a chunk header would begin end the loop
  with the buffers read so far, without an error. An error of the loop is the error of
  \<^verbatim>\<open>load_glb\<close>, and when the loop ends at such a short rest right after the JSON chunk,
  \<^verbatim>\<open>load_glb\<close> goes on to \<^verbatim>\<open>_read_buffers\<close> with no buffer.
\<close>

theorem load_glb_malformed:
  "(4 \<le> length data \<longrightarrow> u32_at data 0 \<noteq> nat magic_gltf \<longrightarrow>
      load_glb E kw data = Some (Inl ValueError)) \<and>
   (8 \<le> length data \<longrightarrow> u32_at data 4 \<noteq> 2 \<longrightarrow>
      load_glb E kw data = Some (Inl ValueError)) \<and>
   (20 \<le> length data \<longrightarrow> u32_at data 16 \<noteq> nat magic_json \<longrightarrow>
      load_glb E kw data = Some (Inl ValueError)) \<and>
   (consumed < total_length \<longrightarrow> 8 \<le> length rest \<longrightarrow> u32_at rest 4 \<noteq> nat magic_bin \<longrightarrow>
      read_chunks rest consumed total_length buffers = Inl ValueError) \<and>
   (consumed < total_length \<longrightarrow> 8 \<le> length rest \<longrightarrow> length rest - 8 < u32_at rest 0 \<longrightarrow>
      read_chunks rest consumed total_length buffers = Inl ValueError) \<and>
   (length rest < 8 \<longrightarrow> read_chunks rest consumed total_length buffers = Inr buffers) \<and>
   (read_head data = Inr (total_length, chunk_length) \<longrightarrow>
    loads E (take chunk_length (drop 20 data)) = Some header \<longrightarrow>
      (\<forall>e. read_chunks (drop (20 + chunk_length) data)
             (20 + length (take chunk_length (drop 20 data))) total_length [] = Inl e \<longrightarrow>
           load_glb E kw data = Some (Inl e)) \<and>
      (length data < 28 + chunk_length \<longrightarrow>
           load_glb E kw data = read_buffers E header [] kw))"
proof (intro conjI impI allI)
  assume "4 \<le> length data" "u32_at data 0 \<noteq> nat magic_gltf"
  then show "load_glb E kw data = Some (Inl ValueError)"
    by (intro load_glb_head_error read_head_bad_magic)
next
  assume "8 \<le> length data" "u32_at data 4 \<noteq> 2"
  then show "load_glb E kw data = Some (Inl ValueError)"
    by (intro load_glb_head_error read_head_bad_version)
next
  assume "20 \<le> length data" "u32_at data 16 \<noteq> nat magic_json"
  then show "load_glb E kw data = Some (Inl ValueError)"
    by (intro load_glb_head_error read_head_bad_json)
next
  assume "consumed < total_length" "8 \<le> length rest" "u32_at rest 4 \<noteq> nat magic_bin"
  then show "read_chunks rest consumed total_length buffers = Inl ValueError"
    by (rule read_chunks_bad_type)
next
  assume "consumed < total_length" "8 \<le> length rest" "length rest - 8 < u32_at rest 0"
  then show "read_chunks rest consumed total_length buffers = Inl ValueError"
    by (rule read_chunks_truncated)
next
  assume "length rest < 8"
  then show "read_chunks rest consumed total_length buffers = Inr buffers"
    by (rule read_chunks_short_head)
next
  fix e
  assume h: "read_head data = Inr (total_length, chunk_length)"
    and l: "loads E (take chunk_length (drop 20 data)) = Some header"
    and c: "read_chunks (drop (20 + chunk_length) data)
             (20 + length (take chunk_length (drop 20 data))) total_length [] = Inl e"
  have d: "drop (20 + length (take chunk_length (drop 20 data))) data
      = drop (20 + chunk_length) data"
    by (cases "chunk_length \<le> length data - 20") (simp_all add: min_def)
  show "load_glb E kw data = Some (Inl e)"
    by (simp add: load_glb_def h l Let_def d c del: length_take)
next
  assume h: "read_head data = Inr (total_length, chunk_length)"
    and l: "loads E (take chunk_length (drop 20 data)) = Some header"
    and s: "length data < 28 + chunk_length"
  have d: "drop (20 + length (take chunk_length (drop 20 data))) data
      = drop (20 + chunk_length) data"
    by (cases "chunk_length \<le> length data - 20") (simp_all add: min_def)
  have "length (drop (20 + chunk_length) data) < 8" using s by simp
  then have "read_chunks (drop (20 + chunk_length) data)
             (20 + length (take chunk_length (drop 20 data))) total_length [] = Inr []"
    by (rule read_chunks_short_head)
  then show "load_glb E kw data = read_buffers E header [] kw"
    by (simp add: load_glb_def h l Let_def d del: length_take)
qed

theorem load_glb_malformed_witness:
  "load_glb test_env [] [0, 0, 0, 0] = Some (Inl ValueError) \<and>
   load_glb test_env [] [0x67, 0x6C, 0x54, 0x46, 3, 0, 0, 0] = Some (Inl ValueError) \<and>
   load_glb test_env [] (take 16 glb_head_bytes @ [0, 0, 0, 0]) = Some (Inl ValueError) \<and>
   read_chunks [0, 0, 0, 0, 1, 0, 0, 0] 22 100 [] = Inl ValueError \<and>
   read_chunks [4, 0, 0, 0, 0x42, 0x49, 0x4E, 0, 1, 2] 22 100 [] = Inl ValueError \<and>
   read_chunks [1, 2, 3] 22 100 [] = Inr [] \<and>
   load_glb (test_env\<lparr>loads := \<lambda>_. Some (JObj [])\<rparr>) []
     (glb_head_bytes @ [0, 0, 0, 0, 1, 0, 0, 0]) = Some (Inl ValueError) \<and>
   load_glb (test_env\<lparr>loads := \<lambda>_. Some (JObj [])\<rparr>) [] (glb_head_bytes @ [1, 2, 3])
     = read_buffers (test_env\<lparr>loads := \<lambda>_. Some (JObj [])\<rparr>) (JObj []) [] []"
proof -
  have 1: "load_glb test_env [] [0, 0, 0, 0] = Some (Inl ValueError)"
    using load_glb_malformed [where data = "[0, 0, 0, 0]" and E = test_env and kw = "[]",
        THEN conjunct1]
    by (simp add: u32_at_def magic_gltf_def)
  have 2: "load_glb test_env [] [0x67, 0x6C, 0x54, 0x46, 3, 0, 0, 0] = Some (Inl ValueError)"
    using load_glb_malformed [where data = "[0x67, 0x6C, 0x54, 0x46, 3, 0, 0, 0]"
        and E = test_env and kw = "[]", THEN conjunct2, THEN conjunct1]
    by (simp add: u32_at_def)
  have 3: "load_glb test_env [] (take 16 glb_head_bytes @ [0, 0, 0, 0]) = Some (Inl ValueError)"
    using load_glb_malformed [where data = "take 16 glb_head_bytes @ [0, 0, 0, 0]"
        and E = test_env and kw = "[]", THEN conjunct2, THEN conjunct2, THEN conjunct1]
    by (simp add: u32_at_def glb_head_bytes_def magic_json_def)
  have 4: "read_chunks [0, 0, 0, 0, 1, 0, 0, 0] 22 100 [] = Inl ValueError"
    using load_glb_malformed [where rest = "[0, 0, 0, 0, 1, 0, 0, 0]" and consumed = 22
        and total_length = 100 and buffers = "[]",
        THEN conjunct2, THEN conjunct2, THEN conjunct2, THEN conjunct1]
    by (simp add: u32_at_def magic_bin_def)
  have 5: "read_chunks [4, 0, 0, 0, 0x42, 0x49, 0x4E, 0, 1, 2] 22 100 [] = Inl ValueError"
    using load_glb_malformed [where rest = "[4, 0, 0, 0, 0x42, 0x49, 0x4E, 0, 1, 2]" and consumed = 22
        and total_length = 100 and buffers = "[]",
        THEN conjunct2, THEN conjunct2, THEN conjunct2,
        THEN conjunct2, THEN conjunct1]
    by (simp add: u32_at_def)
  have 6: "read_chunks [1, 2, 3] 22 100 [] = Inr []"
    using load_glb_malformed [where rest = "[1, 2, 3]" and consumed = 22
        and total_length = 100 and buffers = "[]",
        THEN conjunct2, THEN conjunct2, THEN conjunct2, THEN conjunct2, THEN conjunct2, THEN conjunct1]
    by simp
  define E where "E = test_env\<lparr>loads := \<lambda>_. Some (JObj [])\<rparr>"
  have l: "\<And>b. loads E b = Some (JObj [])" by (simp add: E_def)
  have len: "length glb_head_bytes = 22" by (simp add: glb_head_bytes_def)
  have 7: "load_glb E [] (glb_head_bytes @ [0, 0, 0, 0, 1, 0, 0, 0]) = Some (Inl ValueError)"
  proof -
    note t = load_glb_malformed [where data = "glb_head_bytes @ [0, 0, 0, 0, 1, 0, 0, 0]"
        and E = E and kw = "[]" and total_length = 100 and chunk_length = 2
        and header = "JObj []", THEN conjunct2, THEN conjunct2, THEN conjunct2,
        THEN conjunct2, THEN conjunct2, THEN conjunct2, rule_format,
        OF glb_head_bytes_head l, THEN conjunct1, rule_format, of ValueError]
    have "read_chunks (drop (20 + 2) (glb_head_bytes @ [0, 0, 0, 0, 1, 0, 0, 0]))
            (20 + length (take 2 (drop 20 (glb_head_bytes @ [0, 0, 0, 0, 1, 0, 0, 0])))) 100 []
          = Inl ValueError"
      using 4 by (simp add: len)
    then show ?thesis by (rule t)
  qed
  have 8: "load_glb E [] (glb_head_bytes @ [1, 2, 3]) = read_buffers E (JObj []) [] []"
  proof -
    note t = load_glb_malformed [where data = "glb_head_bytes @ [1, 2, 3]"
        and E = E and kw = "[]" and total_length = 100 and chunk_length = 2
        and header = "JObj []", THEN conjunct2, THEN conjunct2, THEN conjunct2,
        THEN conjunct2, THEN conjunct2, THEN conjunct2, rule_format,
        OF glb_head_bytes_head l, THEN conjunct2, rule_format]
    show ?thesis by (rule t) (simp add: len)
  qed
  show ?thesis using 1 2 3 4 5 6 7 8 unfolding E_def by (intro conjI)
qed

section \<open>Resolving accessors\<close>

lemma py_slice_nonneg:
  assumes "0 \<le> s" "0 \<le> l"
  shows "py_slice xs s (s + l) = take (nat l) (drop (nat s) xs)"
proof (cases "nat s \<le> length xs")
  case True
  have e: "min (nat (s + l)) (length xs) - nat s = min (nat l) (length xs - nat s)"
    using assms True by (simp add: nat_add_distrib min_def)
  have t: "take (min (nat l) (length xs - nat s)) (drop (nat s) xs)
      = take (nat l) (drop (nat s) xs)"
    by (simp add: min_def)
  show ?thesis
    using assms True unfolding py_slice_def slice_bound_def Let_def
    by (simp add: e t min_absorb1)
next
  case False
  then show ?thesis
    using assms unfolding py_slice_def slice_bound_def Let_def by simp
qed

lemma getitem_JObj:
  "getitem (JObj kvs) k = (case map_of kvs k of None \<Rightarrow> Inl KeyError | Some v \<Rightarrow> Inr v)"
  by (simp add: getitem_def subscript_def)

lemma contains_JObj: "contains k (JObj kvs) = Inr (k \<in> set (map fst kvs))"
  by (simp add: contains_def)

lemma as_int_JInt: "as_int (JInt i) = Inr i"
  by (simp add: as_int_def)

lemma int64_id:
  "- 9223372036854775808 \<le> x \<Longrightarrow> x < 9223372036854775808 \<Longrightarrow> int64 x = x"
  by (simp add: int64_def)

lemma np_arith_exact:
  assumes "\<bar>m\<bar> < 9223372036854775808" "\<bar>f m p\<bar> < 9223372036854775808"
  shows "np_arith f m p = NpInt64 (f m p)"
proof -
  have "- 9223372036854775808 \<le> m \<and> m < 9223372036854775808" using assms(1) by linarith
  moreover have "- 9223372036854775808 \<le> f m p \<and> f m p < 9223372036854775808"
    using assms(2) by linarith
  ultimately show ?thesis by (simp add: np_arith_def int64_id)
qed

lemma lookup_shape_cases:
  assumes "lookup_shape jtype = Inr spec"
  shows "(jtype = JStr ''SCALAR'' \<and> spec = [-1]) \<or> (jtype = JStr ''VEC2'' \<and> spec = [-1, 2]) \<or>
         (jtype = JStr ''VEC3'' \<and> spec = [-1, 3]) \<or> (jtype = JStr ''VEC4'' \<and> spec = [-1, 4]) \<or>
         (jtype = JStr ''MAT2'' \<and> spec = [2, 2]) \<or> (jtype = JStr ''MAT3'' \<and> spec = [3, 3]) \<or>
         (jtype = JStr ''MAT4'' \<and> spec = [4, 4])"
  using assms
  by (auto simp: lookup_shape_def shapes_table_def split: json.splits option.splits if_splits)

lemma itemsize_pos [simp]: "0 < itemsize dt"
  by (cases dt) simp_all

lemma frombuffer_exact:
  assumes "length data = itemsize dt * n"
  shows "frombuffer data dt = Inr \<lparr>dtype = dt, shape = [n],
           items = map (\<lambda>i. le_decode (take (itemsize dt) (drop (i * itemsize dt) data))) [0 ..< n]\<rparr>"
  using assms by (simp add: frombuffer_def Let_def)

lemma frombuffer_cases:
  "frombuffer data dt =
     (if length data mod itemsize dt \<noteq> 0 then Inl ValueError
      else Inr \<lparr>dtype = dt, shape = [length data div itemsize dt],
           items = map (\<lambda>i. le_decode (take (itemsize dt) (drop (i * itemsize dt) data)))
                     [0 ..< length data div itemsize dt]\<rparr>)"
  by (simp add: frombuffer_def Let_def)

lemma reshape_vector:
  assumes "spec = [-1] \<or> spec = [-1, 2] \<or> spec = [-1, 3] \<or> spec = [-1, 4]"
  shows "reshape a spec =
     (if length (items a) mod nat \<bar>prod_list spec\<bar> \<noteq> 0 then Inl ValueError
      else Inr (a\<lparr>shape := (length (items a) div nat \<bar>prod_list spec\<bar>) # map nat (tl spec)\<rparr>))"
  using assms by (auto simp: reshape_def Let_def)

lemma reshape_matrix:
  assumes "spec = [2, 2] \<or> spec = [3, 3] \<or> spec = [4, 4]"
  shows "reshape a spec =
     (if length (items a) \<noteq> nat \<bar>prod_list spec\<bar> then Inl ValueError
      else Inr (a\<lparr>shape := map nat spec\<rparr>))"
  using assms by (auto simp: reshape_def Let_def)

lemma mod_product_zero:
  fixes m k p :: nat
  assumes "0 < k"
  shows "m mod (k * p) = 0 \<longleftrightarrow> m mod k = 0 \<and> (m div k) mod p = 0"
  using assms by (auto simp: mod_mult2_eq)

lemma slice_chunk:
  assumes "i < n" "0 < k"
  shows "take k (drop (i * k) (take (k * n) xs)) = take k (drop (i * k) xs)"
proof -
  have "i * k + k \<le> k * n"
  proof -
    have "Suc i \<le> n" using assms(1) by simp
    then have "k * Suc i \<le> k * n" by (rule mult_le_mono2)
    then show ?thesis by (simp add: mult.commute)
  qed
  then have "k \<le> k * n - i * k" by simp
  then show ?thesis by (simp add: drop_take min_absorb1)
qed

lemma read_accessor_resolved:
  assumes "getitem a ''bufferView'' = Inr jview" "as_int jview = Inr iview"
    and "py_index views iview = Inr data"
    and "getitem a ''componentType'' = Inr jct" "lookup_type E jct = Inr dt"
    and "getitem a ''type'' = Inr jtype" "lookup_shape jtype = Inr spec"
    and "contains ''byteOffset'' a = Inr has_offset"
    and "(if has_offset then ebind (getitem a ''byteOffset'') as_int else Inr 0) = Inr start"
    and "getitem a ''count'' = Inr jcount" "as_int jcount = Inr count"
    and "\<bar>start\<bar> < 4611686018427387904"
    and "\<bar>int (itemsize dt) * count * \<bar>prod_list spec\<bar>\<bar> < 4611686018427387904"
  shows "read_accessor E views a =
      ebind (frombuffer (py_slice data start
                (start + int (itemsize dt) * count * \<bar>prod_list spec\<bar>)) dt) (\<lambda>flat.
      ebind (reshape flat spec) (\<lambda>array.
      ebind (array_len array) (\<lambda>n.
      if int n \<noteq> count then Inl AssertionError else Inr array)))"
proof -
  define m where "m = int (itemsize dt) * count"
  define p where "p = \<bar>prod_list spec\<bar>"
  have p1: "1 \<le> p"
    using lookup_shape_cases [OF assms(7)] unfolding p_def by auto
  have "\<bar>m\<bar> * 1 \<le> \<bar>m\<bar> * p" using p1 by (intro mult_left_mono) simp_all
  moreover have "\<bar>m * p\<bar> = \<bar>m\<bar> * p" using p1 by (simp add: abs_mult)
  ultimately have mb: "\<bar>m\<bar> \<le> \<bar>m * p\<bar>" by simp
  have mp: "\<bar>m * p\<bar> < 4611686018427387904" using assms(13) by (simp add: m_def p_def)
  have l: "np_arith (*) m p = NpInt64 (m * p)"
    using mb mp by (intro np_arith_exact) linarith+
  have e: "np_arith (+) start (m * p) = NpInt64 (start + m * p)"
    using assms(12) mp by (intro np_arith_exact) linarith+
  note st = assms(9) [unfolded ebind_def]
  show ?thesis
    unfolding read_accessor_def
    by (simp only: assms(1-8,10,11) st ebind_def sum.case Let_def l e number.case
          slice_index_def m_def [symmetric] p_def [symmetric])
qed

lemma resolve_vector_ok:
  assumes spec: "spec = [-1] \<or> spec = [-1, 2] \<or> spec = [-1, 3] \<or> spec = [-1, 4]"
    and count: "0 \<le> count"
    and len: "length span = itemsize dt * (nat count * nat \<bar>prod_list spec\<bar>)"
  shows "ebind (frombuffer span dt) (\<lambda>flat.
         ebind (reshape flat spec) (\<lambda>array.
         ebind (array_len array) (\<lambda>n.
         if int n \<noteq> count then Inl AssertionError else Inr array)))
       = Inr \<lparr>dtype = dt, shape = nat count # map nat (tl spec),
              items = map (\<lambda>i. le_decode (take (itemsize dt) (drop (i * itemsize dt) span)))
                        [0 ..< nat count * nat \<bar>prod_list spec\<bar>]\<rparr>"
proof -
  define p where "p = nat \<bar>prod_list spec\<bar>"
  have p0: "0 < p" using spec unfolding p_def by auto
  note fb = frombuffer_exact [OF len]
  show ?thesis
    unfolding fb
    using p0 count
    by (simp add: ebind_def reshape_vector [OF spec] array_len_def p_def [symmetric])
qed

lemma resolve_vector_short:
  assumes spec: "spec = [-1] \<or> spec = [-1, 2] \<or> spec = [-1, 3] \<or> spec = [-1, 4]"
    and count: "0 \<le> count"
    and len: "length span < itemsize dt * (nat count * nat \<bar>prod_list spec\<bar>)"
  shows "ebind (frombuffer span dt) (\<lambda>flat.
         ebind (reshape flat spec) (\<lambda>array.
         ebind (array_len array) (\<lambda>n.
         if int n \<noteq> count then Inl AssertionError else Inr array)))
       = Inl (if length span mod (itemsize dt * nat \<bar>prod_list spec\<bar>) = 0
              then AssertionError else ValueError)"
proof -
  define p where "p = nat \<bar>prod_list spec\<bar>"
  define k where "k = itemsize dt"
  define m where "m = length span"
  have p0: "0 < p" using spec unfolding p_def by auto
  have k0: "0 < k" unfolding k_def by simp
  have lt: "m < k * (nat count * p)" using len unfolding p_def k_def m_def .
  have md: "m mod (k * p) = 0 \<longleftrightarrow> m mod k = 0 \<and> (m div k) mod p = 0"
    by (rule mod_product_zero [OF k0])
  have rows: "m div k div p < nat count"
  proof -
    have "m div k < nat count * p"
      using lt k0 by (simp add: less_mult_imp_div_less mult.commute)
    then show ?thesis
      using p0 by (simp add: less_mult_imp_div_less)
  qed
  show ?thesis
  proof (cases "m mod k = 0")
    case False
    then show ?thesis
      using md by (simp add: frombuffer_cases ebind_def k_def [symmetric] m_def [symmetric]
          p_def [symmetric])
  next
    case True
    show ?thesis
    proof (cases "(m div k) mod p = 0")
      case False
      then show ?thesis
        using True md
        by (simp add: frombuffer_cases ebind_def reshape_vector [OF spec]
            k_def [symmetric] m_def [symmetric] p_def [symmetric])
    next
      case z: True
      have ne: "int (m div k div p) \<noteq> count" using rows count by linarith
      show ?thesis
        using True z md ne
        by (simp add: frombuffer_cases ebind_def reshape_vector [OF spec] array_len_def
            k_def [symmetric] m_def [symmetric] p_def [symmetric])
    qed
  qed
qed

lemma resolve_matrix:
  assumes spec: "spec = [2, 2] \<or> spec = [3, 3] \<or> spec = [4, 4]"
    and count: "0 \<le> count"
    and len: "length span = itemsize dt * (nat count * nat \<bar>prod_list spec\<bar>)"
  shows "ebind (frombuffer span dt) (\<lambda>flat.
         ebind (reshape flat spec) (\<lambda>array.
         ebind (array_len array) (\<lambda>n.
         if int n \<noteq> count then Inl AssertionError else Inr array)))
       = Inl (if count = 1 then AssertionError else ValueError)"
proof -
  note fb = frombuffer_exact [OF len]
  have c: "count = 1 \<longleftrightarrow> nat count = 1" using count by auto
  show ?thesis
    unfolding fb
    using spec count
    by (auto simp add: ebind_def reshape_matrix [OF spec] array_len_def c)
qed

lemma reshape_Inr:
  assumes "reshape a spec = Inr b"
  shows "dtype b = dtype a \<and> items b = items a"
  using assms by (auto simp: reshape_def Let_def split: if_splits)

lemma resolve_success:
  assumes ok: "ebind (frombuffer span dt) (\<lambda>flat.
         ebind (reshape flat spec) (\<lambda>array.
         ebind (array_len array) (\<lambda>n.
         if int n \<noteq> count then Inl AssertionError else Inr array))) = Inr array"
  shows "0 \<le> count \<and> array_len array = Inr (nat count) \<and> dtype array = dt \<and>
         length span = itemsize dt * length (items array) \<and>
         items array = map (\<lambda>i. le_decode (take (itemsize dt) (drop (i * itemsize dt) span)))
                        [0 ..< length (items array)] \<and>
         (spec = [-1] \<or> spec = [-1, 2] \<or> spec = [-1, 3] \<or> spec = [-1, 4] \<longrightarrow>
            shape array = nat count # map nat (tl spec) \<and>
            length (items array) = nat count * nat \<bar>prod_list spec\<bar>)"
proof -
  from ok obtain flat n where fb: "frombuffer span dt = Inr flat"
    and rs: "reshape flat spec = Inr array" and al: "array_len array = Inr n"
    and n: "int n = count"
    by (auto simp: ebind_def split: sum.splits if_splits)
  have m: "length span mod itemsize dt = 0" and flat: "flat = \<lparr>dtype = dt, shape = [length span div itemsize dt],
           items = map (\<lambda>i. le_decode (take (itemsize dt) (drop (i * itemsize dt) span)))
                     [0 ..< length span div itemsize dt]\<rparr>"
    using fb by (auto simp: frombuffer_cases split: if_splits)
  have li: "length (items flat) = length span div itemsize dt" by (simp add: flat)
  have sp: "length span = itemsize dt * length (items flat)"
    using m li by (metis mult_div_mod_eq add.right_neutral)
  note pr = reshape_Inr [OF rs]
  have 1: "0 \<le> count" using n by auto
  have 2: "array_len array = Inr (nat count)" using al n by auto
  have 3: "dtype array = dt" using pr flat by simp
  have 4: "length span = itemsize dt * length (items array)" using sp pr by simp
  have 5: "items array = map (\<lambda>i. le_decode (take (itemsize dt) (drop (i * itemsize dt) span)))
                        [0 ..< length (items array)]"
    using pr li by (simp add: flat)
  have 6: "shape array = nat count # map nat (tl spec) \<and>
            length (items array) = nat count * nat \<bar>prod_list spec\<bar>"
    if spec: "spec = [-1] \<or> spec = [-1, 2] \<or> spec = [-1, 3] \<or> spec = [-1, 4]"
  proof -
    define p where "p = nat \<bar>prod_list spec\<bar>"
    from rs have z: "length (items flat) mod p = 0"
      and ar: "array = flat\<lparr>shape := (length (items flat) div p) # map nat (tl spec)\<rparr>"
      unfolding reshape_vector [OF spec] p_def by (auto split: if_splits)
    from al ar have "n = length (items flat) div p" by (simp add: array_len_def)
    with n have r: "length (items flat) div p = nat count" by auto
    have "length (items flat) = nat count * p"
      using z r by (metis mult_div_mod_eq add.right_neutral mult.commute)
    then show ?thesis using ar r pr by (simp add: p_def)
  qed
  from 1 2 3 4 5 6 show ?thesis by blast
qed

lemma nat_span_length:
  assumes "0 \<le> count"
  shows "nat (int k * count * \<bar>p\<bar>) = k * (nat count * nat \<bar>p\<bar>)"
  using assms by (simp add: nat_mult_distrib mult.assoc)

lemma span_chunks:
  assumes "0 < k"
  shows "map (\<lambda>i. le_decode (take k (drop (i * k) (take (k * n) (drop s data))))) [0 ..< n]
       = map (\<lambda>i. le_decode (take k (drop (s + i * k) data))) [0 ..< n]"
proof (rule map_cong [OF refl])
  fix i assume "i \<in> set [0 ..< n]"
  then have i: "i < n" by simp
  show "le_decode (take k (drop (i * k) (take (k * n) (drop s data))))
      = le_decode (take k (drop (s + i * k) data))"
    by (simp only: slice_chunk [OF i assms] drop_drop add.commute)
qed

text \<open>
  Claim C9. For an accessor whose fields resolve (its buffer view \<open>data\<close>, its element
  type \<open>dt\<close> and shape \<open>spec\<close> from the two tables, its \<^verbatim>\<open>count\<close>, and \<open>start\<close>, the
  \<^verbatim>\<open>byteOffset\<close> or 0 when there is none) and whose numbers stay inside numpy's 64-bit
  integers (below \<open>2^62\<close> in absolute value), the bytes read are the slice \<open>span\<close> of
  \<open>data\<close> from \<open>start\<close>, of length \<open>nbytes\<close>: element size times count times the absolute
  product of the shape, which the table fixes (1 for a scalar, the width for a vector,
  4, 9 or 16 for a matrix). For a start and a count that are not negative the span is
  \<open>take nbytes (drop start data)\<close>.

  A scalar or vector accessor (the first dimension is inferred) whose span lies inside
  the view, or whose count is 0, resolves to \<^verbatim>\<open>count\<close> rows: the array of element type
  \<open>dt\<close> and shape \<open>count\<close>, or \<open>count\<close> by the width, of the elements decoded from the bytes
  at \<open>start\<close>. When the view ends before the span does, the accessor fails: with the
  AssertionError of the \<^verbatim>\<open>assert\<close> when the bytes that are left make whole rows (fewer
  than \<^verbatim>\<open>count\<close>), with numpy's ValueError otherwise. A matrix accessor whose span lies
  inside the view always fails: one matrix is reshaped to as many rows as its width,
  which is not the count 1 (AssertionError), and any other count is refused by
  \<^verbatim>\<open>reshape\<close> (ValueError).

  In every case a returned array has the declared count as its length, the element
  type \<open>dt\<close> and the elements of the span, decoded in order; and whenever the span
  reinterprets and reshapes to an array whose length differs from the count, the
  accessor fails with the AssertionError (the failure the specification calls
  FormatError).
\<close>

theorem read_accessor_span:
  assumes "getitem a ''bufferView'' = Inr jview" "as_int jview = Inr iview"
    and "py_index views iview = Inr data"
    and "getitem a ''componentType'' = Inr jct" "lookup_type E jct = Inr dt"
    and "getitem a ''type'' = Inr jtype" "lookup_shape jtype = Inr spec"
    and "contains ''byteOffset'' a = Inr has_offset"
    and "(if has_offset then ebind (getitem a ''byteOffset'') as_int else Inr 0) = Inr start"
    and "getitem a ''count'' = Inr jcount" "as_int jcount = Inr count"
    and "\<bar>start\<bar> < 4611686018427387904"
    and "\<bar>int (itemsize dt) * count * \<bar>prod_list spec\<bar>\<bar> < 4611686018427387904"
    and "nbytes = nat (int (itemsize dt) * count * \<bar>prod_list spec\<bar>)"
    and "span = py_slice data start (start + int (itemsize dt) * count * \<bar>prod_list spec\<bar>)"
  shows "(\<not> has_offset \<longrightarrow> start = 0) \<and>
         (jtype, spec, \<bar>prod_list spec\<bar>) \<in> set
            [(JStr ''SCALAR'', [-1], 1), (JStr ''VEC2'', [-1, 2], 2), (JStr ''VEC3'', [-1, 3], 3),
             (JStr ''VEC4'', [-1, 4], 4), (JStr ''MAT2'', [2, 2], 4), (JStr ''MAT3'', [3, 3], 9),
             (JStr ''MAT4'', [4, 4], 16)] \<and>
         (0 \<le> start \<longrightarrow> 0 \<le> count \<longrightarrow> span = take nbytes (drop (nat start) data)) \<and>
         (0 \<le> start \<longrightarrow> 0 \<le> count \<longrightarrow> hd spec = -1 \<longrightarrow>
            count = 0 \<or> nat start + nbytes \<le> length data \<longrightarrow>
            read_accessor E views a =
              Inr \<lparr>dtype = dt, shape = nat count # map nat (tl spec),
                   items = map (\<lambda>i. le_decode (take (itemsize dt)
                                        (drop (nat start + i * itemsize dt) data)))
                             [0 ..< nat count * nat \<bar>prod_list spec\<bar>]\<rparr>) \<and>
         (0 \<le> start \<longrightarrow> 0 \<le> count \<longrightarrow> hd spec = -1 \<longrightarrow>
            0 < count \<and> length data < nat start + nbytes \<longrightarrow>
            read_accessor E views a =
              Inl (if length span mod (itemsize dt * nat \<bar>prod_list spec\<bar>) = 0
                   then AssertionError else ValueError)) \<and>
         (0 \<le> start \<longrightarrow> 0 \<le> count \<longrightarrow> hd spec \<noteq> -1 \<longrightarrow>
            count = 0 \<or> nat start + nbytes \<le> length data \<longrightarrow>
            read_accessor E views a = Inl (if count = 1 then AssertionError else ValueError)) \<and>
         (\<forall>array. read_accessor E views a = Inr array \<longrightarrow>
            0 \<le> count \<and> array_len array = Inr (nat count) \<and> dtype array = dt \<and>
            length span = itemsize dt * length (items array) \<and>
            items array = map (\<lambda>i. le_decode (take (itemsize dt) (drop (i * itemsize dt) span)))
                            [0 ..< length (items array)] \<and>
            (hd spec = -1 \<longrightarrow> shape array = nat count # map nat (tl spec) \<and>
               length (items array) = nat count * nat \<bar>prod_list spec\<bar>)) \<and>
         (\<forall>flat array n. frombuffer span dt = Inr flat \<longrightarrow> reshape flat spec = Inr array \<longrightarrow>
            array_len array = Inr n \<longrightarrow>
            read_accessor E views a = (if int n \<noteq> count then Inl AssertionError else Inr array))"
proof -
  define k where "k = itemsize dt"
  define p where "p = nat \<bar>prod_list spec\<bar>"
  have ra: "read_accessor E views a =
      ebind (frombuffer span dt) (\<lambda>flat.
      ebind (reshape flat spec) (\<lambda>array.
      ebind (array_len array) (\<lambda>n.
      if int n \<noteq> count then Inl AssertionError else Inr array)))"
    unfolding assms(15) by (rule read_accessor_resolved [OF assms(1-13)])
  note table = lookup_shape_cases [OF assms(7)]
  have vec: "spec = [-1] \<or> spec = [-1, 2] \<or> spec = [-1, 3] \<or> spec = [-1, 4]" if "hd spec = -1"
    using table that by auto
  have mat: "spec = [2, 2] \<or> spec = [3, 3] \<or> spec = [4, 4]" if "hd spec \<noteq> -1"
    using table that by auto
  have nb: "nbytes = k * (nat count * p)" if "0 \<le> count"
    unfolding assms(14) k_def p_def by (rule nat_span_length [OF that])
  have sp: "span = take nbytes (drop (nat start) data)" if "0 \<le> start" "0 \<le> count"
    unfolding assms(14,15) by (rule py_slice_nonneg) (use that in simp_all)
  have full: "length span = k * (nat count * p)"
    if "0 \<le> start" "0 \<le> count" "count = 0 \<or> nat start + nbytes \<le> length data"
    using that sp nb by auto
  have short: "length span < k * (nat count * p)"
    if "0 \<le> start" "0 \<le> count" "0 < count \<and> length data < nat start + nbytes"
  proof -
    define N where "N = k * (nat count * p)"
    have p0: "0 < p" using table unfolding p_def by auto
    have N0: "0 < N" using that p0 unfolding N_def k_def by simp
    have nN: "nbytes = N" using nb [OF that(2)] unfolding N_def .
    have "length span = min N (length data - nat start)"
      using sp [OF that(1,2)] nN by simp
    moreover have "length data < nat start + N" using that(3) nN by simp
    ultimately have "length span < N" using N0 by (simp add: min_def)
    then show ?thesis unfolding N_def .
  qed
  have 1: "\<not> has_offset \<longrightarrow> start = 0" using assms(9) by auto
  have 2: "(jtype, spec, \<bar>prod_list spec\<bar>) \<in> set
            [(JStr ''SCALAR'', [-1], 1), (JStr ''VEC2'', [-1, 2], 2), (JStr ''VEC3'', [-1, 3], 3),
             (JStr ''VEC4'', [-1, 4], 4), (JStr ''MAT2'', [2, 2], 4), (JStr ''MAT3'', [3, 3], 9),
             (JStr ''MAT4'', [4, 4], 16)]"
    using table by (elim disjE conjE) simp_all
  have 3: "0 \<le> start \<longrightarrow> 0 \<le> count \<longrightarrow> span = take nbytes (drop (nat start) data)"
    using sp by simp
  have 4: "read_accessor E views a =
              Inr \<lparr>dtype = dt, shape = nat count # map nat (tl spec),
                   items = map (\<lambda>i. le_decode (take (itemsize dt)
                                        (drop (nat start + i * itemsize dt) data)))
                             [0 ..< nat count * nat \<bar>prod_list spec\<bar>]\<rparr>"
    if h: "0 \<le> start" "0 \<le> count" "hd spec = -1"
      "count = 0 \<or> nat start + nbytes \<le> length data"
  proof -
    have "read_accessor E views a =
        Inr \<lparr>dtype = dt, shape = nat count # map nat (tl spec),
             items = map (\<lambda>i. le_decode (take (itemsize dt) (drop (i * itemsize dt) span)))
                       [0 ..< nat count * nat \<bar>prod_list spec\<bar>]\<rparr>"
      unfolding ra
      by (rule resolve_vector_ok [OF vec [OF h(3)] h(2)])
         (use full [OF h(1,2,4)] in \<open>simp add: k_def p_def\<close>)
    moreover have "map (\<lambda>i. le_decode (take k (drop (i * k) span))) [0 ..< nat count * p]
        = map (\<lambda>i. le_decode (take k (drop (nat start + i * k) data))) [0 ..< nat count * p]"
      unfolding sp [OF h(1,2)] nb [OF h(2)]
      by (rule span_chunks) (simp add: k_def)
    ultimately show ?thesis by (simp add: k_def p_def)
  qed
  have 5: "read_accessor E views a =
              Inl (if length span mod (itemsize dt * nat \<bar>prod_list spec\<bar>) = 0
                   then AssertionError else ValueError)"
    if h: "0 \<le> start" "0 \<le> count" "hd spec = -1"
      "0 < count \<and> length data < nat start + nbytes"
    unfolding ra
    by (rule resolve_vector_short [OF vec [OF h(3)] h(2)])
       (use short [OF h(1,2,4)] in \<open>simp add: k_def p_def\<close>)
  have 6: "read_accessor E views a = Inl (if count = 1 then AssertionError else ValueError)"
    if h: "0 \<le> start" "0 \<le> count" "hd spec \<noteq> -1"
      "count = 0 \<or> nat start + nbytes \<le> length data"
    unfolding ra
    by (rule resolve_matrix [OF mat [OF h(3)] h(2)])
       (use full [OF h(1,2,4)] in \<open>simp add: k_def p_def\<close>)
  have 7: "\<forall>array. read_accessor E views a = Inr array \<longrightarrow>
            0 \<le> count \<and> array_len array = Inr (nat count) \<and> dtype array = dt \<and>
            length span = itemsize dt * length (items array) \<and>
            items array = map (\<lambda>i. le_decode (take (itemsize dt) (drop (i * itemsize dt) span)))
                            [0 ..< length (items array)] \<and>
            (hd spec = -1 \<longrightarrow> shape array = nat count # map nat (tl spec) \<and>
               length (items array) = nat count * nat \<bar>prod_list spec\<bar>)"
  proof (intro allI impI)
    fix array assume "read_accessor E views a = Inr array"
    note r = resolve_success [OF this [unfolded ra]]
    show "0 \<le> count \<and> array_len array = Inr (nat count) \<and> dtype array = dt \<and>
            length span = itemsize dt * length (items array) \<and>
            items array = map (\<lambda>i. le_decode (take (itemsize dt) (drop (i * itemsize dt) span)))
                            [0 ..< length (items array)] \<and>
            (hd spec = -1 \<longrightarrow> shape array = nat count # map nat (tl spec) \<and>
               length (items array) = nat count * nat \<bar>prod_list spec\<bar>)"
      using r vec by blast
  qed
  have 8: "\<forall>flat array n. frombuffer span dt = Inr flat \<longrightarrow> reshape flat spec = Inr array \<longrightarrow>
            array_len array = Inr n \<longrightarrow>
            read_accessor E views a = (if int n \<noteq> count then Inl AssertionError else Inr array)"
    unfolding ra by (simp add: ebind_def)
  show ?thesis
    apply (intro conjI impI)
    subgoal using 1 by simp
    subgoal by (rule 2)
    subgoal using 3 by simp
    subgoal by (rule 4)
    subgoal by (rule 5)
    subgoal by (rule 6)
    subgoal by (rule 7)
    subgoal by (rule 8)
    done
qed

lemma upt6: "[0 ..< 6] = [0, 1, 2, 3, 4, 5]"
  by (simp add: upt_rec)

lemma accessor_of_fields:
  "getitem (accessor_of ty ct offset n) ''bufferView'' = Inr (JInt 0)"
  "getitem (accessor_of ty ct offset n) ''componentType'' = Inr (JInt ct)"
  "getitem (accessor_of ty ct offset n) ''type'' = Inr (JStr ty)"
  "contains ''byteOffset'' (accessor_of ty ct offset n) = Inr True"
  "(if True then ebind (getitem (accessor_of ty ct offset n) ''byteOffset'') as_int else Inr 0)
     = Inr offset"
  "getitem (accessor_of ty ct offset n) ''count'' = Inr (JInt n)"
  by (simp_all add: accessor_of_def getitem_JObj contains_JObj as_int_JInt ebind_def)

lemma index_accessor_fields:
  "getitem (index_accessor n) ''bufferView'' = Inr (JInt 0)"
  "getitem (index_accessor n) ''componentType'' = Inr (JInt 5125)"
  "getitem (index_accessor n) ''type'' = Inr (JStr ''SCALAR'')"
  "contains ''byteOffset'' (index_accessor n) = Inr False"
  "getitem (index_accessor n) ''count'' = Inr (JInt n)"
  by (simp_all add: index_accessor_def getitem_JObj contains_JObj)

lemma lookup_type_JInt:
  "types_table c = Some dt \<Longrightarrow> lookup_type E (JInt c) = Inr dt"
  by (simp add: lookup_type_def int_key_def ebind_def)

lemma lookup_shape_JStr:
  "shapes_table t = Some spec \<Longrightarrow> lookup_shape (JStr t) = Inr spec"
  by (simp add: lookup_shape_def)

lemma py_index_first: "py_index [x] 0 = Inr x"
  by (simp add: py_index_def)

theorem read_accessor_span_witness:
  "read_accessor test_env [position_bytes] (accessor_of ''VEC3'' 5126 4 2)
     = Inr \<lparr>dtype = F4, shape = [2, 3], items = [0, 0, 0, 1065353216, 0, 0]\<rparr> \<and>
   read_accessor test_env [position_bytes] (accessor_of ''VEC3'' 5126 4 3) = Inl AssertionError \<and>
   read_accessor test_env [position_bytes] (accessor_of ''VEC3'' 5126 6 2) = Inl ValueError \<and>
   read_accessor test_env [position_bytes] (accessor_of ''MAT2'' 5121 0 1) = Inl AssertionError \<and>
   read_accessor test_env [index_bytes] (index_accessor 3)
     = Inr \<lparr>dtype = U4, shape = [3], items = [0, 1, 2]\<rparr>"
proof -
  have f4: "lookup_type test_env (JInt 5126) = Inr F4"
    by (rule lookup_type_JInt) (simp add: types_table_def)
  have u1: "lookup_type test_env (JInt 5121) = Inr U1"
    by (rule lookup_type_JInt) (simp add: types_table_def)
  have u4: "lookup_type test_env (JInt 5125) = Inr U4"
    by (rule lookup_type_JInt) (simp add: types_table_def)
  have vec3: "lookup_shape (JStr ''VEC3'') = Inr [-1, 3]"
    by (rule lookup_shape_JStr) (simp add: shapes_table_def)
  have mat2: "lookup_shape (JStr ''MAT2'') = Inr [2, 2]"
    by (rule lookup_shape_JStr) (simp add: shapes_table_def)
  have scalar: "lookup_shape (JStr ''SCALAR'') = Inr [-1]"
    by (rule lookup_shape_JStr) (simp add: shapes_table_def)
  have len: "length position_bytes = 28" by (simp add: position_bytes_def)
  note a = read_accessor_span [where E = test_env and views = "[position_bytes]"
      and a = "accessor_of ''VEC3'' 5126 4 2", OF accessor_of_fields(1) as_int_JInt
      py_index_first accessor_of_fields(2) f4 accessor_of_fields(3) vec3 accessor_of_fields(4,5,6)
      as_int_JInt _ _ refl refl]
  have 1: "read_accessor test_env [position_bytes] (accessor_of ''VEC3'' 5126 4 2)
     = Inr \<lparr>dtype = F4, shape = [2, 3], items = [0, 0, 0, 1065353216, 0, 0]\<rparr>"
    using a [THEN conjunct2, THEN conjunct2, THEN conjunct2, THEN conjunct1]
    by (simp add: len upt6) (simp add: position_bytes_def)
  note b = read_accessor_span [where E = test_env and views = "[position_bytes]"
      and a = "accessor_of ''VEC3'' 5126 4 3", OF accessor_of_fields(1) as_int_JInt
      py_index_first accessor_of_fields(2) f4 accessor_of_fields(3) vec3 accessor_of_fields(4,5,6)
      as_int_JInt _ _ refl refl]
  have 2: "read_accessor test_env [position_bytes] (accessor_of ''VEC3'' 5126 4 3)
     = Inl AssertionError"
    using b [THEN conjunct2, THEN conjunct2, THEN conjunct2, THEN conjunct2, THEN conjunct1]
    by (simp add: len py_slice_def slice_bound_def)
  note c = read_accessor_span [where E = test_env and views = "[position_bytes]"
      and a = "accessor_of ''VEC3'' 5126 6 2", OF accessor_of_fields(1) as_int_JInt
      py_index_first accessor_of_fields(2) f4 accessor_of_fields(3) vec3 accessor_of_fields(4,5,6)
      as_int_JInt _ _ refl refl]
  have 3: "read_accessor test_env [position_bytes] (accessor_of ''VEC3'' 5126 6 2)
     = Inl ValueError"
    using c [THEN conjunct2, THEN conjunct2, THEN conjunct2, THEN conjunct2, THEN conjunct1]
    by (simp add: len py_slice_def slice_bound_def)
  note d = read_accessor_span [where E = test_env and views = "[position_bytes]"
      and a = "accessor_of ''MAT2'' 5121 0 1", OF accessor_of_fields(1) as_int_JInt
      py_index_first accessor_of_fields(2) u1 accessor_of_fields(3) mat2 accessor_of_fields(4,5,6)
      as_int_JInt _ _ refl refl]
  have 4: "read_accessor test_env [position_bytes] (accessor_of ''MAT2'' 5121 0 1)
     = Inl AssertionError"
    using d [THEN conjunct2, THEN conjunct2, THEN conjunct2, THEN conjunct2, THEN conjunct2,
        THEN conjunct1]
    by (simp add: len)
  have nooff: "(if False then ebind (getitem (index_accessor 3) ''byteOffset'') as_int else Inr 0)
      = Inr 0"
    by simp
  note e = read_accessor_span [where E = test_env and views = "[index_bytes]"
      and a = "index_accessor 3", OF index_accessor_fields(1) as_int_JInt
      py_index_first index_accessor_fields(2) u4 index_accessor_fields(3) scalar
      index_accessor_fields(4) nooff index_accessor_fields(5) as_int_JInt _ _ refl refl]
  have 5: "read_accessor test_env [index_bytes] (index_accessor 3)
     = Inr \<lparr>dtype = U4, shape = [3], items = [0, 1, 2]\<rparr>"
    using e [THEN conjunct2, THEN conjunct2, THEN conjunct2, THEN conjunct1]
    by (simp add: upt_small) (simp add: index_bytes_def)
  from 1 2 3 4 5 show ?thesis by (intro conjI)
qed

section \<open>The base frame\<close>

text \<open>The keys of \<^verbatim>\<open>names\<close> are the node indexes, so the test \<^verbatim>\<open>base_frame in names\<close>
  never succeeds, whatever the nodes are called.\<close>

lemma node_names_keys:
  "node_names E node_list = Inr names \<Longrightarrow> \<forall>k\<in>set (map fst names). \<exists>i. k = IntKey i"
proof -
  have "\<And>ixs names. emap (node_name E) ixs = Inr names
      \<Longrightarrow> \<forall>k\<in>set (map fst names). \<exists>i. k = IntKey i"
  proof -
    fix ixs names
    show "emap (node_name E) ixs = Inr names
      \<Longrightarrow> \<forall>k\<in>set (map fst names). \<exists>i. k = IntKey i"
    proof (induction ixs arbitrary: names)
      case Nil
      then show ?case by simp
    next
      case (Cons ix ixs)
      then show ?case
        by (auto simp: ebind_def node_name_def split: sum.splits if_splits)
    qed
  qed
  then show "node_names E node_list = Inr names
      \<Longrightarrow> \<forall>k\<in>set (map fst names). \<exists>i. k = IntKey i"
    unfolding node_names_def by blast
qed

lemma base_frame_always_world:
  assumes "node_names E node_list = Inr names"
  shows "choose_base_frame E names = ''world''"
proof -
  from node_names_keys [OF assms] have "StrKey ''world'' \<notin> set (map fst names)" by auto
  then show ?thesis by (simp add: choose_base_frame_def)
qed

lemma world_geometry:
  "read_geometry test_env [] world_header [] = Inr ([], (\<lambda>_. []), None)"
  by (simp add: read_geometry_def world_header_def getitem_JObj py_iter_def ebind_def
      parse_materials_def test_env_def)

lemma world_frames:
  "read_frames test_env world_header =
     Inr (JArr [JObj [(''name'', JStr ''world'')]],
          [(IntKey 0, JStr ''world''), (StrKey ''world'', JStr ''world'')],
          ''world'',
          [(JStr ''world'', JInt 0)])"
  by (simp add: read_frames_def world_header_def getitem_JObj py_iter_def ebind_def
      node_names_def node_name_def contains_JObj choose_base_frame_def upt_small
      subscript_def as_int_JInt py_index_def)

lemma world_step:
  "graph_step test_env (JArr [JObj [(''name'', JStr ''world'')]])
     [(IntKey 0, JStr ''world''), (StrKey ''world'', JStr ''world'')] (\<lambda>_. [])
     (JStr ''world'', JInt 0) 0 =
   Inr ([], [\<lparr>frame_from = JStr ''world'', frame_to = JStr ''world'', matrix = eye4,
              edge_geometry = None\<rparr>])"
  by (simp add: graph_step_def subscript_def as_int_JInt py_index_def ebind_def contains_JObj
      lookup_name_def names_key_def int_key_def node_matrix_def Let_def)

text \<open>
  Claim C5 at a document in which the root node is literally named \<^verbatim>\<open>world\<close>: the
  base frame that \<^verbatim>\<open>_read_buffers\<close> returns is \<^verbatim>\<open>world\<close> all the same, and the graph
  holds an edge from \<^verbatim>\<open>world\<close> to \<^verbatim>\<open>world\<close>.
\<close>

theorem base_frame_collision:
  "read_buffers test_env world_header [] [] =
     Some (Inr \<lparr>result_geometry = [],
                result_graph = [\<lparr>frame_from = JStr ''world'', frame_to = JStr ''world'',
                                 matrix = eye4, edge_geometry = None\<rparr>],
                result_base_frame = ''world'',
                result_metadata = None\<rparr>)"
proof -
  have "graph_loop test_env (JArr [JObj [(''name'', JStr ''world'')]])
     [(IntKey 0, JStr ''world''), (StrKey ''world'', JStr ''world'')] (\<lambda>_. [])
     [(JStr ''world'', JInt 0)] []
    = Some (Inr [\<lparr>frame_from = JStr ''world'', frame_to = JStr ''world'', matrix = eye4,
              edge_geometry = None\<rparr>])"
    apply (subst graph_loop.simps)
    apply (simp add: world_step)
    apply (subst graph_loop.simps)
    apply simp
    done
  then show ?thesis
    by (simp add: read_buffers_def world_geometry world_frames)
qed

section \<open>The edges of the transform graph\<close>

lemma graph_step_inversion:
  assumes "graph_step E nodes names mesh_prim (a, b) n_graph = Inr (pushed, edges)"
  shows "\<exists>child name_a name_b mat has_mesh geometries.
      subscript nodes b = Inr child \<and>
      lookup_name E names a = Inr name_a \<and> lookup_name E names b = Inr name_b \<and>
      node_matrix E child = Inr mat \<and>
      contains ''mesh'' child = Inr has_mesh \<and>
      (if has_mesh
       then \<exists>jmesh. getitem child ''mesh'' = Inr jmesh \<and>
              mesh_names E mesh_prim jmesh = Inr geometries
       else geometries = []) \<and>
      edges = \<lparr>frame_from = name_a, frame_to = name_b, matrix = mat, edge_geometry = None\<rparr> #
        map (\<lambda>(k, name). \<lparr>frame_from = name_a,
                 frame_to = JStr (instance_name E name (n_graph + 1 + k)),
                 matrix = mat, edge_geometry = Some name\<rparr>)
          (zip [0 ..< length geometries] geometries)"
  using assms
  by (auto simp: graph_step_def ebind_def Let_def split: sum.splits if_splits)

lemma node_matrix_cases:
  assumes "node_matrix E child = Inr mat"
  shows "(contains ''matrix'' child = Inr False \<longrightarrow> mat = eye4) \<and>
         (\<forall>m flat. contains ''matrix'' child = Inr True \<longrightarrow> getitem child ''matrix'' = Inr m \<longrightarrow>
            np_array_f64 E m = Inr flat \<longrightarrow> length flat = 16 \<and> mat = reshape44_T flat)"
  using assms
  by (auto simp: node_matrix_def ebind_def split: sum.splits if_splits)

lemma reshape44_T_nth:
  "i < 4 \<Longrightarrow> j < 4 \<Longrightarrow> reshape44_T flat ! i ! j = flat ! (4 * j + i)"
proof -
  assume "i < 4" "j < 4"
  then have "i \<in> {0, 1, 2, 3}" "j \<in> {0, 1, 2, 3}" by auto
  then show ?thesis by (auto simp: reshape44_T_def eval_nat_numeral)
qed

lemma same_length_suffix:
  "length s = length s' \<Longrightarrow> xs @ s = ys @ s' \<Longrightarrow> s = s'"
  by (simp add: append_eq_append_conv)

lemma suffix_names_distinct:
  assumes len: "\<forall>k<n. length (suf k) = (6::nat)"
    and inj: "inj_on suf {..<n}"
  shows "distinct (map (\<lambda>k. JStr (pre k @ ''_'' @ suf k)) [0 ..< n])"
proof -
  have "inj_on (\<lambda>k. JStr (pre k @ ''_'' @ suf k)) (set [0 ..< n])"
  proof (rule inj_onI)
    fix x y
    assume x: "x \<in> set [0 ..< n]" and y: "y \<in> set [0 ..< n]"
      and e: "JStr (pre x @ ''_'' @ suf x) = JStr (pre y @ ''_'' @ suf y)"
    from x y len have l: "length (suf x) = length (suf y)" by simp
    from e have "(pre x @ ''_'') @ suf x = (pre y @ ''_'') @ suf y" by simp
    with l have "suf x = suf y" by (rule same_length_suffix)
    with inj x y show "x = y" by (auto dest: inj_onD)
  qed
  then show ?thesis by (simp add: distinct_map)
qed

text \<open>
  Claim C4. Whenever the body of the loop succeeds for a popped pair \<open>(a, b)\<close>, it
  appends to the graph first the structural edge from \<^verbatim>\<open>names[a]\<close> to \<^verbatim>\<open>names[b]\<close>, with
  no geometry and with the matrix of the child node (the identity when the node has
  none, else its 16 numbers reshaped to 4 by 4 and transposed), and then, when the node
  references a mesh with the generated names \<open>geometries\<close>, one edge per name, with the
  same matrix and parent, the geometry set, and the frame
  \<^verbatim>\<open>name_suffix\<close> where the suffix is \<^verbatim>\<open>unique_id(length=6, increment=len(graph)).upper()\<close>:
  \<open>length geometries + 1\<close> edges in all. \<^verbatim>\<open>util.unique_id\<close> is not part of the module:
  where it returns 6 characters, and different ones at the increments used, the minted
  frames are pairwise different. The loop continues with exactly these edges appended.
\<close>

theorem graph_step_edges:
  assumes "graph_step E nodes names mesh_prim (a, b) n_graph = Inr (pushed, edges)"
  shows "\<exists>child name_a name_b mat geometries.
      subscript nodes b = Inr child \<and>
      lookup_name E names a = Inr name_a \<and> lookup_name E names b = Inr name_b \<and>
      node_matrix E child = Inr mat \<and>
      (contains ''matrix'' child = Inr False \<longrightarrow> mat = eye4) \<and>
      (\<forall>m flat. contains ''matrix'' child = Inr True \<longrightarrow> getitem child ''matrix'' = Inr m \<longrightarrow>
         np_array_f64 E m = Inr flat \<longrightarrow>
         length flat = 16 \<and> (\<forall>i<4. \<forall>j<4. mat ! i ! j = flat ! (4 * j + i))) \<and>
      (contains ''mesh'' child = Inr False \<longrightarrow> geometries = []) \<and>
      (\<forall>jmesh. contains ''mesh'' child = Inr True \<longrightarrow> getitem child ''mesh'' = Inr jmesh \<longrightarrow>
         mesh_names E mesh_prim jmesh = Inr geometries) \<and>
      length edges = length geometries + 1 \<and>
      edges ! 0 = \<lparr>frame_from = name_a, frame_to = name_b, matrix = mat,
                   edge_geometry = None\<rparr> \<and>
      (\<forall>k<length geometries.
         edges ! (k + 1) =
           \<lparr>frame_from = name_a,
            frame_to = JStr (instance_name E (geometries ! k) (n_graph + 1 + k)),
            matrix = mat, edge_geometry = Some (geometries ! k)\<rparr> \<and>
         (\<forall>t. geometries ! k = JStr t \<longrightarrow>
            instance_name E (geometries ! k) (n_graph + 1 + k) =
              t @ ''_'' @ upper E (unique_id E 6 (n_graph + 1 + k)))) \<and>
      ((\<forall>k<length geometries. length (upper E (unique_id E 6 (n_graph + 1 + k))) = 6) \<longrightarrow>
       inj_on (\<lambda>k. upper E (unique_id E 6 (n_graph + 1 + k))) {..<length geometries} \<longrightarrow>
         distinct (map frame_to (tl edges))) \<and>
      (\<forall>queue graph. queue \<noteq> [] \<longrightarrow> last queue = (a, b) \<longrightarrow> length graph = n_graph \<longrightarrow>
         graph_loop E nodes names mesh_prim queue graph =
         graph_loop E nodes names mesh_prim (butlast queue @ pushed) (graph @ edges))"
proof -
  from graph_step_inversion [OF assms] obtain child name_a name_b mat has_mesh geometries where
    c: "subscript nodes b = Inr child"
    and na: "lookup_name E names a = Inr name_a" and nb: "lookup_name E names b = Inr name_b"
    and m: "node_matrix E child = Inr mat"
    and hm: "contains ''mesh'' child = Inr has_mesh"
    and g: "if has_mesh
       then \<exists>jmesh. getitem child ''mesh'' = Inr jmesh \<and>
              mesh_names E mesh_prim jmesh = Inr geometries
       else geometries = []"
    and e: "edges = \<lparr>frame_from = name_a, frame_to = name_b, matrix = mat, edge_geometry = None\<rparr> #
        map (\<lambda>(k, name). \<lparr>frame_from = name_a,
                 frame_to = JStr (instance_name E name (n_graph + 1 + k)),
                 matrix = mat, edge_geometry = Some name\<rparr>)
          (zip [0 ..< length geometries] geometries)"
    by (elim exE conjE)
  note mc = node_matrix_cases [OF m]
  have m1: "contains ''matrix'' child = Inr False \<longrightarrow> mat = eye4" using mc by blast
  have m2: "\<forall>m flat. contains ''matrix'' child = Inr True \<longrightarrow> getitem child ''matrix'' = Inr m \<longrightarrow>
         np_array_f64 E m = Inr flat \<longrightarrow>
         length flat = 16 \<and> (\<forall>i<4. \<forall>j<4. mat ! i ! j = flat ! (4 * j + i))"
    using mc by (auto simp: reshape44_T_nth)
  have g1: "contains ''mesh'' child = Inr False \<longrightarrow> geometries = []"
    using hm g by auto
  have g2: "\<forall>jmesh. contains ''mesh'' child = Inr True \<longrightarrow> getitem child ''mesh'' = Inr jmesh \<longrightarrow>
         mesh_names E mesh_prim jmesh = Inr geometries"
    using hm g by auto
  have l: "length edges = length geometries + 1" by (simp add: e)
  have e0: "edges ! 0 = \<lparr>frame_from = name_a, frame_to = name_b, matrix = mat,
                   edge_geometry = None\<rparr>" by (simp add: e)
  have ek: "\<forall>k<length geometries.
         edges ! (k + 1) =
           \<lparr>frame_from = name_a,
            frame_to = JStr (instance_name E (geometries ! k) (n_graph + 1 + k)),
            matrix = mat, edge_geometry = Some (geometries ! k)\<rparr> \<and>
         (\<forall>t. geometries ! k = JStr t \<longrightarrow>
            instance_name E (geometries ! k) (n_graph + 1 + k) =
              t @ ''_'' @ upper E (unique_id E 6 (n_graph + 1 + k)))"
    by (auto simp: e instance_name_def)
  have d: "(\<forall>k<length geometries. length (upper E (unique_id E 6 (n_graph + 1 + k))) = 6) \<longrightarrow>
       inj_on (\<lambda>k. upper E (unique_id E 6 (n_graph + 1 + k))) {..<length geometries} \<longrightarrow>
         distinct (map frame_to (tl edges))"
  proof (intro impI)
    assume len: "\<forall>k<length geometries. length (upper E (unique_id E 6 (n_graph + 1 + k))) = 6"
      and inj: "inj_on (\<lambda>k. upper E (unique_id E 6 (n_graph + 1 + k))) {..<length geometries}"
    have "map frame_to (tl edges) =
        map (\<lambda>k. JStr ((case geometries ! k of JStr t \<Rightarrow> t | _ \<Rightarrow> py_str E (geometries ! k))
                    @ ''_'' @ upper E (unique_id E 6 (n_graph + 1 + k)))) [0 ..< length geometries]"
      by (rule nth_equalityI) (auto simp: e instance_name_def split: json.splits)
    with suffix_names_distinct [OF len inj,
        of "\<lambda>k. case geometries ! k of JStr t \<Rightarrow> t | _ \<Rightarrow> py_str E (geometries ! k)"]
    show "distinct (map frame_to (tl edges))" by simp
  qed
  have lp: "\<forall>queue graph. queue \<noteq> [] \<longrightarrow> last queue = (a, b) \<longrightarrow> length graph = n_graph \<longrightarrow>
         graph_loop E nodes names mesh_prim queue graph =
         graph_loop E nodes names mesh_prim (butlast queue @ pushed) (graph @ edges)"
  proof (intro allI impI)
    fix queue :: "(json \<times> json) list" and graph :: "edge list"
    assume "queue \<noteq> []" "last queue = (a, b)" "length graph = n_graph"
    then show "graph_loop E nodes names mesh_prim queue graph =
         graph_loop E nodes names mesh_prim (butlast queue @ pushed) (graph @ edges)"
      by (subst graph_loop.simps) (simp add: assms)
  qed
  from c na nb m m1 m2 g1 g2 l e0 ek d lp show ?thesis
    by (intro exI [of _ child] exI [of _ name_a] exI [of _ name_b] exI [of _ mat]
        exI [of _ geometries] conjI)
qed

lemma decimal_100002: "decimal 100002 = ''100002''"
  by (simp add: decimal.simps digit_def)

lemma decimal_100003: "decimal 100003 = ''100003''"
  by (simp add: decimal.simps digit_def)

lemma test_env_fields:
  "dumps test_env = (\<lambda>_. ''{}'')"
  "astype_float32 test_env = (\<lambda>w. ucast (drop_bit 32 w))"
  "float_as_int test_env = (\<lambda>_. None)"
  "py_str test_env = (\<lambda>_. ''None'')"
  "unique_id test_env = (\<lambda>n increment. take n (decimal (100000 + increment)))"
  "upper test_env = (\<lambda>t. t)"
  "random_frame test_env = ''1234567890''"
  "pil_open test_env = None"
  "np_array_f64 test_env (JArr xs) = Inr (map (\<lambda>x. case x of JFloat f \<Rightarrow> f | _ \<Rightarrow> 0) xs)"
  by (simp_all add: test_env_def)

lemma test_unique_id: "upper test_env (unique_id test_env 6 n) = take 6 (decimal (100000 + n))"
  by (simp add: test_env_def)

lemma instanced_mesh_names:
  "mesh_names test_env instanced_prims (JInt 0) = Inr [JStr ''part_0'', JStr ''part_1'']"
  by (simp add: mesh_names_def int_key_def ebind_def instanced_prims_def)

lemma instanced_child:
  "subscript instanced_nodes (JInt 1) =
     Inr (JObj [(''name'', JStr ''part''), (''mesh'', JInt 0),
                 (''matrix'', JArr (map JFloat [1, 2, 3, 4, 5, 6, 7, 8, 9, 10, 11, 12, 13, 14, 15, 16]))])"
  by (simp add: subscript_def instanced_nodes_def as_int_JInt ebind_def py_index_def)

lemma instanced_step:
  "\<exists>pushed edges. graph_step test_env instanced_nodes instanced_names instanced_prims
      (JInt 0, JInt 1) 1 = Inr (pushed, edges)"
  by (simp add: graph_step_def instanced_child ebind_def contains_JObj getitem_JObj
      lookup_name_def names_key_def int_key_def instanced_names_def node_matrix_def
      instanced_mesh_names Let_def test_env_fields)

theorem graph_step_edges_witness:
  "\<exists>pushed edges. graph_step test_env instanced_nodes instanced_names instanced_prims
      (JInt 0, JInt 1) 1 = Inr (pushed, edges) \<and>
     length edges = 3 \<and>
     edge_geometry (edges ! 0) = None \<and>
     edge_geometry (edges ! 1) = Some (JStr ''part_0'') \<and>
     edge_geometry (edges ! 2) = Some (JStr ''part_1'') \<and>
     frame_to (edges ! 1) = JStr ''part_0_100002'' \<and>
     distinct (map frame_to (tl edges))"
proof -
  from instanced_step obtain pushed edges where
    s: "graph_step test_env instanced_nodes instanced_names instanced_prims
      (JInt 0, JInt 1) 1 = Inr (pushed, edges)"
    by (elim exE)
  from graph_step_edges [OF s] obtain child name_a name_b mat geometries where
    c: "subscript instanced_nodes (JInt 1) = Inr child"
    and g: "\<forall>jmesh. contains ''mesh'' child = Inr True \<longrightarrow> getitem child ''mesh'' = Inr jmesh \<longrightarrow>
         mesh_names test_env instanced_prims jmesh = Inr geometries"
    and l: "length edges = length geometries + 1"
    and e0: "edges ! 0 = \<lparr>frame_from = name_a, frame_to = name_b, matrix = mat,
                   edge_geometry = None\<rparr>"
    and ek: "\<forall>k<length geometries.
         edges ! (k + 1) =
           \<lparr>frame_from = name_a,
            frame_to = JStr (instance_name test_env (geometries ! k) (1 + 1 + k)),
            matrix = mat, edge_geometry = Some (geometries ! k)\<rparr> \<and>
         (\<forall>t. geometries ! k = JStr t \<longrightarrow>
            instance_name test_env (geometries ! k) (1 + 1 + k) =
              t @ ''_'' @ upper test_env (unique_id test_env 6 (1 + 1 + k)))"
    and d: "(\<forall>k<length geometries.
               length (upper test_env (unique_id test_env 6 (1 + 1 + k))) = 6) \<longrightarrow>
       inj_on (\<lambda>k. upper test_env (unique_id test_env 6 (1 + 1 + k))) {..<length geometries} \<longrightarrow>
         distinct (map frame_to (tl edges))"
    by (elim exE conjE)
  from c have child: "child = JObj [(''name'', JStr ''part''), (''mesh'', JInt 0),
                 (''matrix'', JArr (map JFloat [1, 2, 3, 4, 5, 6, 7, 8, 9, 10, 11, 12, 13, 14, 15, 16]))]"
    by (simp add: instanced_child)
  have "mesh_names test_env instanced_prims (JInt 0) = Inr geometries"
    by (rule g [rule_format]) (simp_all add: child contains_JObj getitem_JObj)
  then have geo: "geometries = [JStr ''part_0'', JStr ''part_1'']"
    by (simp add: instanced_mesh_names)
  have k2: "\<And>k. k < Suc (Suc 0) \<Longrightarrow> k = 0 \<or> k = Suc 0" by auto
  have len: "\<forall>k<length geometries.
               length (upper test_env (unique_id test_env 6 (1 + 1 + k))) = 6"
    by (auto simp: geo test_unique_id decimal_100002 decimal_100003 dest!: k2)
  have inj: "inj_on (\<lambda>k. upper test_env (unique_id test_env 6 (1 + 1 + k))) {..<length geometries}"
    by (auto simp: inj_on_def geo test_unique_id decimal_100002 decimal_100003 dest!: k2)
  from d len inj have dist: "distinct (map frame_to (tl edges))" by blast
  have e1: "edges ! 1 =
           \<lparr>frame_from = name_a,
            frame_to = JStr (''part_0'' @ ''_'' @ upper test_env (unique_id test_env 6 2)),
            matrix = mat, edge_geometry = Some (JStr ''part_0'')\<rparr>"
    using ek [rule_format, of 0] by (simp add: geo numeral_2_eq_2)
  have e2: "edge_geometry (edges ! 2) = Some (JStr ''part_1'')"
    using ek [rule_format, of 1] by (simp add: geo numeral_2_eq_2)
  have f1: "frame_to (edges ! 1) = JStr ''part_0_100002''"
    unfolding e1 by (simp add: test_unique_id decimal_100002)
  have l3: "length edges = 3" using l by (simp add: geo)
  have g0: "edge_geometry (edges ! 0) = None" unfolding e0 by simp
  have g1: "edge_geometry (edges ! 1) = Some (JStr ''part_0'')" unfolding e1 by simp
  from s l3 g0 g1 e2 f1 dist show ?thesis
    by (intro exI [of _ pushed] exI [of _ edges] conjI)
qed

section \<open>Geometries keyed by name\<close>

lemma dict_update_Nil [simp]: "dict_update g [] = g"
  by (simp add: dict_update_def)

lemma dict_update_Cons [simp]:
  "dict_update g (nk # gen) = dict_update (AList.update (fst nk) (snd nk) g) gen"
  by (simp add: dict_update_def)









































end
